theory Spec2Isabelle
  imports Complex_Main "HOL-Library.Sublist"
begin

section \<open>Shared data: JSON values and constants\<close>

text \<open>
  Values produced by \<^verbatim>\<open>JSON.parse\<close>. A JSON number is modelled by the real number it
  denotes; rounding to the nearest double is outside the model. A number at or beyond the
  overflow threshold of a double is \<^verbatim>\<open>Infinity\<close> for the program: comparisons come out
  the same on the real number, and \<open>json_number\<close> below gives the double where the program
  tests finiteness. An object is the list of its own properties.
\<close>

datatype json =
    JNull
  | JBool bool
  | JNum real
  | JStr string
  | JArr "json list"
  | JObj "(string \<times> json) list"

text \<open>
  \<^verbatim>\<open>payload?.exp\<close>: the \<^verbatim>\<open>exp\<close> property of a parsed payload; \<open>None\<close> is
  \<^verbatim>\<open>undefined\<close>, which is what \<^verbatim>\<open>null\<close> and every value that is not an object give.
\<close>

fun payload_exp :: "json \<Rightarrow> json option" where
  "payload_exp (JObj kvs) = map_of kvs ''exp''"
| "payload_exp _ = None"

text \<open>\<^verbatim>\<open>lib/constants.ts\<close>: \<^verbatim>\<open>PAGE_LINKS\<close> and \<^verbatim>\<open>TOKENS\<close>.\<close>

definition PAGE_LINKS_REGISTER :: string where "PAGE_LINKS_REGISTER = ''/register''"
definition PAGE_LINKS_LOGIN :: string where "PAGE_LINKS_LOGIN = ''/login''"
definition PAGE_LINKS_PROFILE :: string where "PAGE_LINKS_PROFILE = ''/profile''"
definition PAGE_LINKS_DASHBOARD :: string where "PAGE_LINKS_DASHBOARD = ''/dashboard''"

definition TOKENS_ACCESS :: string where "TOKENS_ACCESS = ''accessToken''"
definition TOKENS_REFRESH :: string where "TOKENS_REFRESH = ''refreshToken''"

section \<open>The route gate: \<^verbatim>\<open>registration-ui/src/middleware.ts\<close>\<close>

text \<open>
  \<^verbatim>\<open>String.prototype.split\<close> with a one-character separator: the pieces between the
  separators, empty pieces included; the empty string gives one empty piece.
\<close>

fun split_on :: "char \<Rightarrow> string \<Rightarrow> string list" where
  "split_on c [] = [[]]"
| "split_on c (x # xs) =
     (if x = c then [] # split_on c xs
      else (case split_on c xs of
              [] \<Rightarrow> [[x]]
            | p # ps \<Rightarrow> (x # p) # ps))"

text \<open>
  \<^verbatim>\<open>isExpiredJwt(token)\<close>. The token is \<open>None\<close> when the cookie is absent. The parameter
  \<open>decode\<close> stands for the platform's part of the body,
  \<^verbatim>\<open>JSON.parse(Buffer.from(s.replace(/-/g,'+').replace(/_/g,'/'), 'base64').toString('utf8'))\<close>,
  with \<open>None\<close> when it throws; \<open>now_ms\<close> is \<^verbatim>\<open>Date.now()\<close>. Every \<^verbatim>\<open>return true\<close> of
  the source, the one in the \<^verbatim>\<open>catch\<close> included, is a branch here.
\<close>

definition isExpiredJwt :: "(string \<Rightarrow> json option) \<Rightarrow> int \<Rightarrow> string option \<Rightarrow> bool" where
  "isExpiredJwt decode now_ms token =
     (case token of
        None \<Rightarrow> True
      | Some t \<Rightarrow>
          if t = [] then True
          else
            let parts = split_on CHR ''.'' t in
            if length parts \<noteq> 3 then True
            else
              (case decode (parts ! 1) of
                 None \<Rightarrow> True
               | Some payload \<Rightarrow>
                   (case payload_exp payload of
                      Some (JNum e) \<Rightarrow> e \<le> of_int (now_ms div 1000)
                    | _ \<Rightarrow> False)))"

text \<open>
  \<^verbatim>\<open>req.nextUrl\<close>: the path and the parsed query parameters. The raw query string
  \<^verbatim>\<open>req.nextUrl.search\<close> (empty, or starting with a question mark) is a field of the
  request beside them: turning one into the other is the platform's percent-encoding.
\<close>

record next_url =
  pathname :: string
  searchParams :: "(string \<times> string) list"

record next_request =
  nextUrl :: next_url
  search :: string
  cookies :: "string \<rightharpoonup> string"

text \<open>\<^verbatim>\<open>URLSearchParams.has\<close> and \<^verbatim>\<open>URLSearchParams.set\<close>: \<^verbatim>\<open>set\<close> overwrites the first
  pair of that name and drops the others, or appends the pair when there is none.\<close>

definition searchParams_has :: "string \<Rightarrow> (string \<times> string) list \<Rightarrow> bool" where
  "searchParams_has k ps = (k \<in> set (map fst ps))"

fun searchParams_set :: "string \<Rightarrow> string \<Rightarrow> (string \<times> string) list \<Rightarrow> (string \<times> string) list" where
  "searchParams_set k v [] = [(k, v)]"
| "searchParams_set k v (p # ps) =
     (if fst p = k then (k, v) # filter (\<lambda>q. fst q \<noteq> k) ps
      else p # searchParams_set k v ps)"

text \<open>
  A \<^verbatim>\<open>NextResponse\<close>: \<^verbatim>\<open>NextResponse.next()\<close> or \<^verbatim>\<open>NextResponse.redirect(url)\<close>,
  with the names passed to \<^verbatim>\<open>res.cookies.delete\<close>, in order.
\<close>

datatype next_action = Continue | Redirect next_url

record next_response =
  action :: next_action
  deleted :: "string list"

definition isProtected :: "string \<Rightarrow> bool" where
  "isProtected p = (prefix PAGE_LINKS_DASHBOARD p \<or> prefix PAGE_LINKS_PROFILE p)"

definition isAuthPage :: "string \<Rightarrow> bool" where
  "isAuthPage p = (p = PAGE_LINKS_LOGIN \<or> p = PAGE_LINKS_REGISTER)"

text \<open>\<^verbatim>\<open>!!token\<close>: a cookie value that is present and not the empty string.\<close>

definition truthy_token :: "string option \<Rightarrow> bool" where
  "truthy_token token = (case token of None \<Rightarrow> False | Some t \<Rightarrow> t \<noteq> [])"

definition middleware :: "(string \<Rightarrow> json option) \<Rightarrow> int \<Rightarrow> next_request \<Rightarrow> next_response" where
  "middleware decode now_ms req =
     (let path = pathname (nextUrl req);
          token = cookies req TOKENS_ACCESS;
          hasNext = searchParams_has ''next'' (searchParams (nextUrl req));
          authed = (truthy_token token \<and> \<not> isExpiredJwt decode now_ms token)
      in
        if isProtected path \<and> \<not> authed then
          \<lparr> action = Redirect
              \<lparr> pathname = PAGE_LINKS_LOGIN,
                searchParams = searchParams_set ''next'' (path @ search req) (searchParams (nextUrl req)) \<rparr>,
            deleted = (if truthy_token token then [TOKENS_ACCESS] else []) @ [TOKENS_REFRESH] \<rparr>
        else if isAuthPage path \<and> hasNext then
          \<lparr> action = Continue,
            deleted = (if truthy_token token then [TOKENS_ACCESS] else []) @ [TOKENS_REFRESH] \<rparr>
        else if isAuthPage path \<and> authed \<and> \<not> hasNext then
          \<lparr> action = Redirect \<lparr> pathname = PAGE_LINKS_DASHBOARD, searchParams = [] \<rparr>,
            deleted = [] \<rparr>
        else
          \<lparr> action = Continue, deleted = [] \<rparr>)"

text \<open>
  What the browser's cookie store holds once it has applied a response to the cookies the
  request carried: \<^verbatim>\<open>res.cookies.delete(name)\<close> sends an already expired cookie of that
  name, which removes it.
\<close>

definition cookies_after :: "next_request \<Rightarrow> next_response \<Rightarrow> (string \<rightharpoonup> string)" where
  "cookies_after req res = (\<lambda>name. if name \<in> set (deleted res) then None else cookies req name)"

section \<open>The client session store: \<^verbatim>\<open>UserServiceImpl\<close> in \<^verbatim>\<open>services/user.service.ts\<close>\<close>

text \<open>
  A cookie as the service writes it through \<^verbatim>\<open>document.cookie\<close>: value, \<^verbatim>\<open>Path\<close>,
  \<^verbatim>\<open>Max-Age\<close> in seconds and \<^verbatim>\<open>SameSite\<close>. The value is kept decoded: the writer's
  \<^verbatim>\<open>encodeURIComponent\<close> is undone by every reader of the cookie.
\<close>

record cookie =
  cookie_value :: string
  cookie_path :: string
  cookie_max_age :: real
  cookie_same_site :: string

text \<open>
  The two storage surfaces of a browser window: \<^verbatim>\<open>localStorage\<close>, and the cookie store
  behind \<^verbatim>\<open>document.cookie\<close>, which is \<open>None\<close> when \<^verbatim>\<open>typeof document === 'undefined'\<close>.
  The browser keeps one cookie for each name and path.
  The state of the client is \<open>None\<close> when \<^verbatim>\<open>typeof window === 'undefined'\<close>, as it is
  while the page is rendered on the server, where there is no storage and no document.
\<close>

record browser =
  localStorage :: "string \<rightharpoonup> string"
  document_cookie :: "(string \<times> string \<rightharpoonup> cookie) option"

type_synonym client_state = "browser option"

text \<open>
  Assigning \<^verbatim>\<open>name=value; Path=...; Max-Age=n; SameSite=...\<close> to \<^verbatim>\<open>document.cookie\<close>:
  the browser replaces the cookie of that name and path, and a cookie whose \<^verbatim>\<open>Max-Age\<close>
  is zero or negative expires at once, which removes it. Cookies of the same name under
  other paths are not touched.
\<close>

definition document_cookie_assign ::
    "string \<Rightarrow> cookie \<Rightarrow> (string \<times> string \<rightharpoonup> cookie) \<Rightarrow> (string \<times> string \<rightharpoonup> cookie)" where
  "document_cookie_assign name c jar =
     (if cookie_max_age c \<le> 0 then jar((name, cookie_path c) := None)
      else jar((name, cookie_path c) \<mapsto> c))"

definition getToken :: "client_state \<Rightarrow> string option" where
  "getToken s = (case s of None \<Rightarrow> None | Some b \<Rightarrow> localStorage b TOKENS_ACCESS)"

definition setToken :: "string \<Rightarrow> client_state \<Rightarrow> client_state" where
  "setToken token s =
     (case s of
        None \<Rightarrow> None
      | Some b \<Rightarrow> Some (b\<lparr>localStorage := (localStorage b)(TOKENS_ACCESS \<mapsto> token)\<rparr>))"

definition setRefreshToken :: "string \<Rightarrow> client_state \<Rightarrow> client_state" where
  "setRefreshToken token s =
     (case s of
        None \<Rightarrow> None
      | Some b \<Rightarrow> Some (b\<lparr>localStorage := (localStorage b)(TOKENS_REFRESH \<mapsto> token)\<rparr>))"

definition clearToken :: "client_state \<Rightarrow> client_state" where
  "clearToken s =
     (case s of
        None \<Rightarrow> None
      | Some b \<Rightarrow>
          let b1 = b\<lparr>localStorage := (localStorage b)(TOKENS_ACCESS := None, TOKENS_REFRESH := None)\<rparr>;
              gone = \<lparr> cookie_value = [], cookie_path = ''/'', cookie_max_age = 0,
                       cookie_same_site = ''Lax'' \<rparr>
          in
            (case document_cookie b1 of
               None \<Rightarrow> Some b1
             | Some jar \<Rightarrow>
                 Some (b1\<lparr>document_cookie :=
                           Some (document_cookie_assign TOKENS_REFRESH gone
                                  (document_cookie_assign TOKENS_ACCESS gone jar))\<rparr>)))"

text \<open>
  Reading the two surfaces: \<^verbatim>\<open>localStorage.getItem(name)\<close>, and the session store's
  cookie of a name, which is the one under \<^verbatim>\<open>Path=/\<close>, where the service writes all its
  cookies; both are \<open>None\<close> where the surface does not exist.
\<close>

definition getItem :: "client_state \<Rightarrow> string \<Rightarrow> string option" where
  "getItem s name = (case s of None \<Rightarrow> None | Some b \<Rightarrow> localStorage b name)"

definition cookie_of :: "client_state \<Rightarrow> string \<Rightarrow> cookie option" where
  "cookie_of s name =
     (case s of
        None \<Rightarrow> None
      | Some b \<Rightarrow> (case document_cookie b of None \<Rightarrow> None | Some jar \<Rightarrow> jar (name, ''/'')))"

text \<open>JavaScript truthiness of a parsed JSON value, as \<^verbatim>\<open>if (payload?.exp)\<close> tests it.\<close>

fun js_truthy :: "json \<Rightarrow> bool" where
  "js_truthy JNull = False"
| "js_truthy (JBool b) = b"
| "js_truthy (JNum n) = (n \<noteq> 0)"
| "js_truthy (JStr s) = (s \<noteq> [])"
| "js_truthy (JArr _) = True"
| "js_truthy (JObj _) = True"

text \<open>
  A JavaScript number as far as \<^verbatim>\<open>login\<close> tells them apart: \<^verbatim>\<open>NaN\<close>, the two
  infinities, or a finite value. \<open>DOUBLE_OVERFLOW\<close> is the least magnitude that rounds to
  an infinity, half a unit in the last place above the largest finite double.
\<close>

datatype js_number = JsNaN | JsInfinity | JsNegInfinity | JsFinite real

definition DOUBLE_OVERFLOW :: real where
  "DOUBLE_OVERFLOW = 2 ^ 1024 - 2 ^ 970"

definition json_number :: "real \<Rightarrow> js_number" where
  "json_number n =
     (if DOUBLE_OVERFLOW \<le> n then JsInfinity
      else if n \<le> - DOUBLE_OVERFLOW then JsNegInfinity
      else JsFinite n)"

text \<open>
  The number that the subtraction \<^verbatim>\<open>payload.exp - ...\<close> takes from its left operand.
  What a string or an array converts to is the platform's rule and comes as the parameter
  \<open>coerce\<close>.
\<close>

fun ToNumber :: "(json \<Rightarrow> js_number) \<Rightarrow> json \<Rightarrow> js_number" where
  "ToNumber coerce (JNum n) = json_number n"
| "ToNumber coerce (JBool b) = JsFinite (if b then 1 else 0)"
| "ToNumber coerce JNull = JsFinite 0"
| "ToNumber coerce (JObj kvs) = JsNaN"
| "ToNumber coerce v = coerce v"

text \<open>
  Subtracting a finite number, and \<^verbatim>\<open>Math.max(0, x)\<close>: \<^verbatim>\<open>NaN\<close> stays \<^verbatim>\<open>NaN\<close>, the
  infinities stay what they are under subtraction, and the maximum with zero of minus
  infinity is zero.
\<close>

fun js_minus :: "js_number \<Rightarrow> real \<Rightarrow> js_number" where
  "js_minus (JsFinite x) y = JsFinite (x - y)"
| "js_minus x y = x"

fun Math_max_0 :: "js_number \<Rightarrow> js_number" where
  "Math_max_0 (JsFinite x) = JsFinite (max 0 x)"
| "Math_max_0 JsNegInfinity = JsFinite 0"
| "Math_max_0 x = x"

text \<open>
  The immediately invoked function \<^verbatim>\<open>maxAgeFromJwt\<close> of \<^verbatim>\<open>login\<close>. The parameter
  \<open>atob_parse\<close> stands for \<^verbatim>\<open>JSON.parse(atob(s))\<close>, \<open>None\<close> when either throws; a token
  without a second part makes \<^verbatim>\<open>atob\<close> throw. Every \<^verbatim>\<open>return null\<close> of the source, the
  \<^verbatim>\<open>catch\<close> and the \<^verbatim>\<open>Number.isFinite\<close> test included, is a \<open>None\<close> here.
\<close>

definition maxAgeFromJwt ::
    "(string \<Rightarrow> json option) \<Rightarrow> (json \<Rightarrow> js_number) \<Rightarrow> int \<Rightarrow> string \<Rightarrow> real option" where
  "maxAgeFromJwt atob_parse coerce now_ms accessToken =
     (let parts = split_on CHR ''.'' accessToken in
      if length parts < 2 then None
      else
        (case atob_parse (parts ! 1) of
           None \<Rightarrow> None
         | Some payload \<Rightarrow>
             (case payload_exp payload of
                None \<Rightarrow> None
              | Some e \<Rightarrow>
                  if js_truthy e then
                    (case Math_max_0 (js_minus (ToNumber coerce e) (of_int (now_ms div 1000))) of
                       JsFinite secs \<Rightarrow> Some secs
                     | _ \<Rightarrow> None)
                  else None)))"

text \<open>\<^verbatim>\<open>const maxAge = maxAgeFromJwt ?? 60 * 60\<close>: the \<^verbatim>\<open>Max-Age\<close> of the access-token cookie.\<close>

definition maxAge :: "(string \<Rightarrow> json option) \<Rightarrow> (json \<Rightarrow> js_number) \<Rightarrow> int \<Rightarrow> string \<Rightarrow> real" where
  "maxAge atob_parse coerce now_ms accessToken =
     (case maxAgeFromJwt atob_parse coerce now_ms accessToken of
        None \<Rightarrow> 60 * 60
      | Some secs \<Rightarrow> secs)"

text \<open>\<^verbatim>\<open>services/api.types.ts\<close> and the errors \<^verbatim>\<open>login\<close> can throw.\<close>

record auth_user =
  au_id :: string
  au_name :: string
  au_username :: string
  au_email :: string

record login_success =
  ls_accessToken :: string
  ls_refreshToken :: string
  ls_user :: auth_user

record login_envelope =
  env_success :: bool
  env_data :: "login_success option"

datatype client_error = AuthError | Error string

definition USER_MESSAGES_LOGIN_ERROR :: string where
  "USER_MESSAGES_LOGIN_ERROR = ''Login failed''"

text \<open>
  What \<^verbatim>\<open>this.http.request(API_ENDPOINTS.LOGIN, ...)\<close> came to: status 401 (where
  \<^verbatim>\<open>ensureOk\<close> calls \<^verbatim>\<open>onUnauthorized\<close>, which is \<^verbatim>\<open>clearToken\<close>, and throws
  \<^verbatim>\<open>AuthError\<close>), another failure with its message, or the parsed body (\<open>None\<close> for an
  empty one).
\<close>

datatype http_result = Status401 | Failed string | Body "login_envelope option"

text \<open>
  \<^verbatim>\<open>UserServiceImpl.login\<close> from the response on: the new state of the two surfaces and
  either the thrown error or the returned record.
\<close>

definition login ::
    "(string \<Rightarrow> json option) \<Rightarrow> (json \<Rightarrow> js_number) \<Rightarrow> int \<Rightarrow> http_result \<Rightarrow> client_state
       \<Rightarrow> client_state \<times> (client_error + login_success)" where
  "login atob_parse coerce now_ms response s =
     (case response of
        Status401 \<Rightarrow> (clearToken s, Inl AuthError)
      | Failed msg \<Rightarrow> (s, Inl (Error msg))
      | Body env \<Rightarrow>
          (case env of
             None \<Rightarrow> (s, Inl (Error USER_MESSAGES_LOGIN_ERROR))
           | Some e \<Rightarrow>
               (case env_data e of
                  None \<Rightarrow> (s, Inl (Error USER_MESSAGES_LOGIN_ERROR))
                | Some d \<Rightarrow>
                    if \<not> env_success e then (s, Inl (Error USER_MESSAGES_LOGIN_ERROR))
                    else
                      let s1 = setRefreshToken (ls_refreshToken d) (setToken (ls_accessToken d) s);
                          age = maxAge atob_parse coerce now_ms (ls_accessToken d);
                          s2 = (case s1 of
                                  None \<Rightarrow> None
                                | Some b \<Rightarrow>
                                    (case document_cookie b of
                                       None \<Rightarrow> Some b
                                     | Some jar \<Rightarrow>
                                         Some (b\<lparr>document_cookie :=
                                           Some (document_cookie_assign TOKENS_REFRESH
                                                   \<lparr> cookie_value = ls_refreshToken d, cookie_path = ''/'',
                                                     cookie_max_age = 60 * 60 * 24 * 30,
                                                     cookie_same_site = ''Lax'' \<rparr>
                                                  (document_cookie_assign TOKENS_ACCESS
                                                     \<lparr> cookie_value = ls_accessToken d, cookie_path = ''/'',
                                                       cookie_max_age = age,
                                                       cookie_same_site = ''Lax'' \<rparr>
                                                     jar))\<rparr>)))
                      in (s2, Inr \<lparr> ls_accessToken = ls_accessToken d,
                                    ls_refreshToken = ls_refreshToken d,
                                    ls_user = \<lparr> au_id = au_id (ls_user d), au_name = au_name (ls_user d),
                                                au_username = au_username (ls_user d),
                                                au_email = au_email (ls_user d) \<rparr> \<rparr>))))"

section \<open>The API: \<^verbatim>\<open>lib/jwt.ts\<close>, \<^verbatim>\<open>services/auth.service.ts\<close>, \<^verbatim>\<open>routes/auth.route.ts\<close>\<close>

text \<open>
  A signed token of the \<^verbatim>\<open>jsonwebtoken\<close> library, before its wire encoding: the
  algorithm of the header, the claims, and the signature. The signature is symbolic:
  \<open>Hmac k a cs\<close> is the HMAC-SHA-256 under the secret \<open>k\<close> of the header with algorithm
  \<open>a\<close> and the claims \<open>cs\<close>, and two signatures are equal only when key, header and claims
  are.
\<close>

type_synonym claims = "(string \<times> json) list"

datatype hmac = Hmac string string claims

record signed_jwt =
  jwt_alg :: string
  jwt_claims :: claims
  jwt_signature :: hmac

datatype api_error = SignError | JsonWebTokenError | NotBeforeError | TokenExpiredError

text \<open>Assigning a property of an object: the value is replaced in place, or the property added.\<close>

fun set_claim :: "string \<Rightarrow> json \<Rightarrow> claims \<Rightarrow> claims" where
  "set_claim k v [] = [(k, v)]"
| "set_claim k v (p # ps) = (if fst p = k then (k, v) # ps else p # set_claim k v ps)"

definition number_or_absent :: "json option \<Rightarrow> bool" where
  "number_or_absent v = (case v of None \<Rightarrow> True | Some (JNum n) \<Rightarrow> True | Some _ \<Rightarrow> False)"

text \<open>
  \<^verbatim>\<open>signJwt(payload, secret, ttl)\<close>. The library's \<^verbatim>\<open>jwt.sign\<close> fails on an empty secret,
  on an \<^verbatim>\<open>expiresIn\<close> that is not a whole number, which is what
  \<^verbatim>\<open>Math.floor(ms(ttl) / 1000)\<close> is when \<^verbatim>\<open>ms\<close> does not understand the string, on a
  payload that already has \<^verbatim>\<open>exp\<close>, and on a payload whose \<^verbatim>\<open>iat\<close> or \<^verbatim>\<open>nbf\<close> is not a
  number. The issue time is \<^verbatim>\<open>payload.iat || Math.floor(Date.now() / 1000)\<close>; the library
  sets \<^verbatim>\<open>iat\<close> to it and \<^verbatim>\<open>exp\<close> to it plus \<^verbatim>\<open>expiresIn\<close>. The parameter \<open>ms\<close> is the
  \<^verbatim>\<open>ms\<close> package (\<open>None\<close> when it gives no number), \<open>now_ms\<close> is \<^verbatim>\<open>Date.now()\<close>.
\<close>

definition signJwt :: "(string \<Rightarrow> real option) \<Rightarrow> int \<Rightarrow> claims \<Rightarrow> string \<Rightarrow> string \<Rightarrow> api_error + signed_jwt" where
  "signJwt ms now_ms payload secret ttl =
     (case ms ttl of
        None \<Rightarrow> Inl SignError
      | Some m \<Rightarrow>
          if secret = [] then Inl SignError
          else if map_of payload ''exp'' \<noteq> None then Inl SignError
          else if \<not> number_or_absent (map_of payload ''iat'') then Inl SignError
          else if \<not> number_or_absent (map_of payload ''nbf'') then Inl SignError
          else
            let timestamp = (case map_of payload ''iat'' of
                               Some (JNum n) \<Rightarrow> if n \<noteq> 0 then n else of_int (now_ms div 1000)
                             | _ \<Rightarrow> of_int (now_ms div 1000));
                expiresIn = \<lfloor>m / 1000\<rfloor>;
                cs = set_claim ''exp'' (JNum (timestamp + of_int expiresIn))
                       (set_claim ''iat'' (JNum timestamp) payload)
            in Inr \<lparr> jwt_alg = ''HS256'', jwt_claims = cs, jwt_signature = Hmac secret ''HS256'' cs \<rparr>)"

text \<open>
  \<^verbatim>\<open>verifyJwt(token, secret)\<close>, that is \<^verbatim>\<open>jwt.verify(token, secret, { algorithms: ['HS256'] })\<close>:
  the algorithm must be the allowed one, the signature must be the secret's, and the
  library then checks \<^verbatim>\<open>nbf\<close> and \<^verbatim>\<open>exp\<close> against the verifier's clock in whole seconds,
  with no tolerance. Each throw of the library is an \<open>Inl\<close>.
\<close>

definition verifyJwt :: "int \<Rightarrow> signed_jwt \<Rightarrow> string \<Rightarrow> api_error + claims" where
  "verifyJwt now_ms token secret =
     (let clockTimestamp = now_ms div 1000 in
      if secret = [] then Inl JsonWebTokenError
      else if jwt_alg token \<notin> set [''HS256''] then Inl JsonWebTokenError
      else if jwt_signature token \<noteq> Hmac secret (jwt_alg token) (jwt_claims token) then Inl JsonWebTokenError
      else
        (case map_of (jwt_claims token) ''nbf'' of
           Some (JNum n) \<Rightarrow> if n > of_int clockTimestamp then Inl NotBeforeError else
             (case map_of (jwt_claims token) ''exp'' of
                None \<Rightarrow> Inr (jwt_claims token)
              | Some (JNum e) \<Rightarrow>
                  if of_int clockTimestamp \<ge> e then Inl TokenExpiredError else Inr (jwt_claims token)
              | Some _ \<Rightarrow> Inl JsonWebTokenError)
         | Some _ \<Rightarrow> Inl JsonWebTokenError
         | None \<Rightarrow>
             (case map_of (jwt_claims token) ''exp'' of
                None \<Rightarrow> Inr (jwt_claims token)
              | Some (JNum e) \<Rightarrow>
                  if of_int clockTimestamp \<ge> e then Inl TokenExpiredError else Inr (jwt_claims token)
              | Some _ \<Rightarrow> Inl JsonWebTokenError)))"

text \<open>\<^verbatim>\<open>config.ts\<close>: the parsed environment, as far as the tokens use it.\<close>

record config =
  JWT_ACCESS_SECRET :: string
  JWT_REFRESH_SECRET :: string
  JWT_ACCESS_TTL :: string
  JWT_REFRESH_TTL :: string

record db_user =
  db_id :: string
  db_name :: string
  db_username :: string
  db_email :: string
  db_password :: string

record public_user =
  pu_id :: string
  pu_name :: string
  pu_username :: string
  pu_email :: string

text \<open>
  The value \<^verbatim>\<open>authenticate\<close> resolves to. The negative result \<^verbatim>\<open>{ user: null }\<close> is
  \<open>no_user\<close>: both tokens are \<^verbatim>\<open>undefined\<close>.
\<close>

record auth_result =
  res_user :: "public_user option"
  res_accessToken :: "signed_jwt option"
  res_refreshToken :: "signed_jwt option"

definition no_user :: auth_result where
  "no_user = \<lparr> res_user = None, res_accessToken = None, res_refreshToken = None \<rparr>"

definition DUMMY_HASH :: string where
  "DUMMY_HASH = ''$2a$10$JtqYvZbqvB4QzqK4gl0m9e8cZ7pK9D5T1f2o7Q8c5rV5SgU8V5hA2''"

text \<open>
  The query of \<^verbatim>\<open>authenticate\<close>, \<^verbatim>\<open>db.query.users.findFirst({ where: or(...) })\<close>: the
  table \<^verbatim>\<open>users\<close> is the list \<open>db\<close>, and the row found is the first that satisfies the
  \<^verbatim>\<open>where\<close> clause. The parameter \<open>toLowerCase\<close> is \<^verbatim>\<open>String.prototype.toLowerCase\<close>.
\<close>

definition findFirst_users :: "(string \<Rightarrow> string) \<Rightarrow> string \<Rightarrow> db_user list \<Rightarrow> db_user option" where
  "findFirst_users toLowerCase identifier db =
     (let isEmail = (CHR ''@'' \<in> set identifier);
          emailNorm = toLowerCase identifier
      in find (\<lambda>u. db_username u = identifier \<or>
                     (if isEmail then db_email u = emailNorm
                      else db_username u = ''__nope__'')) db)"

text \<open>
  \<^verbatim>\<open>authenticate(identifier, password)\<close>. The parameter \<open>compare\<close> is
  \<^verbatim>\<open>bcrypt.compare\<close>, \<open>ms\<close> and \<open>toLowerCase\<close> are as above. The first component of the result is the log of the calls made to
  \<^verbatim>\<open>bcrypt.compare\<close>, each with its two arguments; the second is the thrown error or the
  value returned.
\<close>

definition authenticate ::
    "(string \<Rightarrow> string \<Rightarrow> bool) \<Rightarrow> (string \<Rightarrow> real option) \<Rightarrow> (string \<Rightarrow> string) \<Rightarrow> config
       \<Rightarrow> db_user list \<Rightarrow> int \<Rightarrow> string \<Rightarrow> string
       \<Rightarrow> (string \<times> string) list \<times> (api_error + auth_result)" where
  "authenticate compare ms toLowerCase cfg db now_ms identifier password =
     (let row = findFirst_users toLowerCase identifier db;
          hashToCheck = (case row of Some r \<Rightarrow> db_password r | None \<Rightarrow> DUMMY_HASH);
          ok = compare password hashToCheck;
          calls = [(password, hashToCheck)]
      in
        (case row of
           None \<Rightarrow> (calls, Inr no_user)
         | Some r \<Rightarrow>
             if \<not> ok then
               (calls, Inr no_user)
             else
               (case signJwt ms now_ms [(''sub'', JStr (db_id r)), (''username'', JStr (db_username r))]
                       (JWT_ACCESS_SECRET cfg) (JWT_ACCESS_TTL cfg) of
                  Inl e \<Rightarrow> (calls, Inl e)
                | Inr accessToken \<Rightarrow>
                    (case signJwt ms now_ms [(''sub'', JStr (db_id r)), (''type'', JStr ''refresh'')]
                            (JWT_REFRESH_SECRET cfg) (JWT_REFRESH_TTL cfg) of
                       Inl e \<Rightarrow> (calls, Inl e)
                     | Inr refreshToken \<Rightarrow>
                         (calls,
                          Inr \<lparr> res_user = Some \<lparr> pu_id = db_id r, pu_name = db_name r,
                                                  pu_username = db_username r, pu_email = db_email r \<rparr>,
                                res_accessToken = Some accessToken,
                                res_refreshToken = Some refreshToken \<rparr>)))))"

text \<open>
  The handler of \<^verbatim>\<open>POST /api/auth/login\<close>. The route sets \<^verbatim>\<open>attachValidation\<close>, so a body
  that fails the JSON schema reaches the handler with \<^verbatim>\<open>validationError\<close> set; the
  handler then never reads the body.
\<close>

definition RESPONSE_TEXTS_USER_INVALID_CREDENTIALS :: string where
  "RESPONSE_TEXTS_USER_INVALID_CREDENTIALS = ''Invalid credentials''"

record login_req =
  validationError :: "string option"
  body_identifier :: string
  body_password :: string

datatype reply_body = Failure string | Success auth_result

record reply =
  reply_code :: nat
  reply_body :: reply_body

definition login_handler ::
    "(string \<Rightarrow> string \<Rightarrow> bool) \<Rightarrow> (string \<Rightarrow> real option) \<Rightarrow> (string \<Rightarrow> string) \<Rightarrow> config
       \<Rightarrow> db_user list \<Rightarrow> int \<Rightarrow> login_req \<Rightarrow> (string \<times> string) list \<times> (api_error + reply)" where
  "login_handler compare ms toLowerCase cfg db now_ms r =
     (if validationError r \<noteq> None then
        ([], Inr \<lparr> reply_code = 401, reply_body = Failure RESPONSE_TEXTS_USER_INVALID_CREDENTIALS \<rparr>)
      else
        (case authenticate compare ms toLowerCase cfg db now_ms (body_identifier r) (body_password r) of
           (calls, Inl e) \<Rightarrow> (calls, Inl e)
         | (calls, Inr result) \<Rightarrow>
             if res_user result = None \<or> res_accessToken result = None \<or> res_refreshToken result = None
             then (calls, Inr \<lparr> reply_code = 401,
                                reply_body = Failure RESPONSE_TEXTS_USER_INVALID_CREDENTIALS \<rparr>)
             else (calls, Inr \<lparr> reply_code = 200, reply_body = Success result \<rparr>)))"

section \<open>Sample inputs\<close>

text \<open>
  The decoder on the payload parts of the sample tokens below: each string is the
  base64url text of the JSON value beside it (\<^verbatim>\<open>{}\<close>, \<^verbatim>\<open>{"exp":1700000000}\<close>,
  \<^verbatim>\<open>{"exp":1700000001}\<close>, \<^verbatim>\<open>{"exp":1700000600}\<close>, \<^verbatim>\<open>{"sub":"u1"}\<close>); every other
  string of the samples is not JSON once decoded.
\<close>

definition sample_decode :: "string \<Rightarrow> json option" where
  "sample_decode s =
     (if s = ''e30'' then Some (JObj [])
      else if s = ''eyJleHAiOjE3MDAwMDAwMDB9'' then Some (JObj [(''exp'', JNum 1700000000)])
      else if s = ''eyJleHAiOjE3MDAwMDAwMDF9'' then Some (JObj [(''exp'', JNum 1700000001)])
      else if s = ''eyJleHAiOjE3MDAwMDA2MDB9'' then Some (JObj [(''exp'', JNum 1700000600)])
      else if s = ''eyJzdWIiOiJ1MSJ9'' then Some (JObj [(''sub'', JStr ''u1'')])
      else None)"

text \<open>
  Requests to the gate. \<^verbatim>\<open>/login?next=%2Fdashboard\<close> with an access-token cookie that
  expires one second after the clock of the examples; \<^verbatim>\<open>/dashboard\<close> with no cookie at
  all; \<^verbatim>\<open>/dashboard/settings?tab=2\<close> with a cookie that expired; \<^verbatim>\<open>/profile\<close> with a
  token whose payload has no \<^verbatim>\<open>exp\<close>; and \<^verbatim>\<open>/login/reset\<close>, a public path.
\<close>

definition req_login_next_valid :: next_request where
  "req_login_next_valid =
     \<lparr> nextUrl = \<lparr> pathname = ''/login'', searchParams = [(''next'', ''/dashboard'')] \<rparr>,
       search = ''?next=%2Fdashboard'',
       cookies = map_of [(''accessToken'', ''h.eyJleHAiOjE3MDAwMDAwMDF9.s''), (''refreshToken'', ''r'')] \<rparr>"

definition req_dashboard_none :: next_request where
  "req_dashboard_none =
     \<lparr> nextUrl = \<lparr> pathname = ''/dashboard'', searchParams = [] \<rparr>,
       search = [],
       cookies = map_of [] \<rparr>"

definition req_dashboard_stale :: next_request where
  "req_dashboard_stale =
     \<lparr> nextUrl = \<lparr> pathname = ''/dashboard/settings'', searchParams = [(''tab'', ''2'')] \<rparr>,
       search = ''?tab=2'',
       cookies = map_of [(''accessToken'', ''h.eyJleHAiOjE3MDAwMDAwMDB9.s''), (''refreshToken'', ''r'')] \<rparr>"

definition req_profile_no_exp :: next_request where
  "req_profile_no_exp =
     \<lparr> nextUrl = \<lparr> pathname = ''/profile'', searchParams = [] \<rparr>,
       search = [],
       cookies = map_of [(''accessToken'', ''h.eyJzdWIiOiJ1MSJ9.s'')] \<rparr>"

definition req_login_nested :: next_request where
  "req_login_nested =
     \<lparr> nextUrl = \<lparr> pathname = ''/login/reset'', searchParams = [(''next'', ''/dashboard'')] \<rparr>,
       search = ''?next=%2Fdashboard'',
       cookies = map_of [(''accessToken'', ''h.eyJleHAiOjE3MDAwMDAwMDF9.s''), (''refreshToken'', ''r'')] \<rparr>"

text \<open>
  Inputs to the client's \<^verbatim>\<open>login\<close>: a browser with nothing stored, and a successful
  response carrying a given access token. On the sample tokens \<^verbatim>\<open>JSON.parse(atob(s))\<close>
  agrees with \<open>sample_decode\<close>; no sample payload has an \<^verbatim>\<open>exp\<close> that is a string or an
  array, so the conversion of those to numbers is never consulted.
\<close>

definition sample_coerce :: "json \<Rightarrow> js_number" where
  "sample_coerce v = JsNaN"

definition sample_user :: auth_user where
  "sample_user = \<lparr> au_id = ''u1'', au_name = ''Alice'', au_username = ''alice'', au_email = ''alice@example.com'' \<rparr>"

definition empty_browser :: client_state where
  "empty_browser = Some \<lparr> localStorage = Map.empty, document_cookie = Some Map.empty \<rparr>"

definition login_response :: "string \<Rightarrow> http_result" where
  "login_response accessToken =
     Body (Some \<lparr> env_success = True,
                  env_data = Some \<lparr> ls_accessToken = accessToken, ls_refreshToken = ''r'',
                                     ls_user = sample_user \<rparr> \<rparr>)"

text \<open>
  Inputs to the API: a table with one user, whose stored hash is written as the text
  \<^verbatim>\<open>bcrypt:\<close> before the password it was made from, with the comparison that goes with
  it; lower-casing as it is on identifiers made of ASCII characters, which the sample
  identifiers are; the two time spans of the default configuration as the \<^verbatim>\<open>ms\<close>
  package reads them;
  two secrets of 32 characters; and the two tokens that a login of that user at
  1700000000.999 seconds is expected to give.
\<close>

definition sample_toLowerCase :: "string \<Rightarrow> string" where
  "sample_toLowerCase s =
     map (\<lambda>c. if 65 \<le> (of_char c :: nat) \<and> (of_char c :: nat) \<le> 90
               then char_of ((of_char c :: nat) + 32) else c) s"

definition sample_compare :: "string \<Rightarrow> string \<Rightarrow> bool" where
  "sample_compare password hash = (hash = ''bcrypt:'' @ password)"

definition sample_ms :: "string \<Rightarrow> real option" where
  "sample_ms ttl =
     (if ttl = ''10m'' then Some 600000 else if ttl = ''7d'' then Some 604800000 else None)"

definition sample_cfg :: config where
  "sample_cfg =
     \<lparr> JWT_ACCESS_SECRET = ''0123456789abcdef0123456789abcdef'',
       JWT_REFRESH_SECRET = ''fedcba9876543210fedcba9876543210'',
       JWT_ACCESS_TTL = ''10m'',
       JWT_REFRESH_TTL = ''7d'' \<rparr>"

definition sample_row :: db_user where
  "sample_row =
     \<lparr> db_id = ''u1'', db_name = ''Alice'', db_username = ''alice'',
       db_email = ''alice@example.com'', db_password = ''bcrypt:secret1'' \<rparr>"

definition sample_db :: "db_user list" where
  "sample_db = [sample_row]"

definition sample_access_claims :: claims where
  "sample_access_claims =
     [(''sub'', JStr ''u1''), (''username'', JStr ''alice''),
      (''iat'', JNum 1700000000), (''exp'', JNum 1700000600)]"

definition sample_access_token :: signed_jwt where
  "sample_access_token =
     \<lparr> jwt_alg = ''HS256'', jwt_claims = sample_access_claims,
       jwt_signature = Hmac ''0123456789abcdef0123456789abcdef'' ''HS256'' sample_access_claims \<rparr>"

definition sample_refresh_claims :: claims where
  "sample_refresh_claims =
     [(''sub'', JStr ''u1''), (''type'', JStr ''refresh''),
      (''iat'', JNum 1700000000), (''exp'', JNum 1700604800)]"

definition sample_refresh_token :: signed_jwt where
  "sample_refresh_token =
     \<lparr> jwt_alg = ''HS256'', jwt_claims = sample_refresh_claims,
       jwt_signature = Hmac ''fedcba9876543210fedcba9876543210'' ''HS256'' sample_refresh_claims \<rparr>"

section \<open>Properties of the route gate\<close>

lemma split_on_nonempty: "split_on c s \<noteq> []"
  by (induction s) (auto split: list.splits)

lemma split_on_no_sep: "c \<notin> set s \<Longrightarrow> split_on c s = [s]"
  by (induction s) auto

lemma split_on_append:
  "c \<notin> set h \<Longrightarrow> split_on c (h @ c # rest) = h # split_on c rest"
  by (induction h) auto

lemma split_on_three:
  "c \<notin> set h \<Longrightarrow> c \<notin> set p \<Longrightarrow> c \<notin> set s \<Longrightarrow>
   split_on c (h @ c # p @ c # s) = [h, p, s]"
  by (simp add: split_on_append split_on_no_sep)

lemma isProtected_not_isAuthPage: "isProtected p \<Longrightarrow> \<not> isAuthPage p"
  by (auto simp: isProtected_def isAuthPage_def PAGE_LINKS_DASHBOARD_def PAGE_LINKS_PROFILE_def
      PAGE_LINKS_LOGIN_def PAGE_LINKS_REGISTER_def)

lemma isExpiredJwt_None: "isExpiredJwt decode now_ms None"
  by (simp add: isExpiredJwt_def)

lemma isExpiredJwt_not_truthy: "\<not> truthy_token token \<Longrightarrow> isExpiredJwt decode now_ms token"
  by (cases token) (auto simp: truthy_token_def isExpiredJwt_def)

lemma map_of_searchParams_set: "map_of (searchParams_set k v ps) k = Some v"
  by (induction ps) auto

lemma searchParams_set_once: "length (filter (\<lambda>q. fst q = k) (searchParams_set k v ps)) = 1"
  by (induction ps) (auto simp: filter_empty_conv)

subsection \<open>The advisory expiry check\<close>

text \<open>
  C6. The advisory expiry check answers "expired" for a missing token, for the empty
  string, for a token that does not split into three parts at its dots, and for a token
  whose payload part does not decode. For a three-part token whose payload decodes and
  has a numeric \<^verbatim>\<open>exp\<close>, the answer is exactly \<^verbatim>\<open>exp\<close> \<open>\<le>\<close> the clock in whole seconds: no
  grace, no skew. The header and the signature are never looked at: two tokens with the
  same payload part get the same answer, whatever their first and third parts are.
\<close>

theorem isExpiredJwt_cases:
  "isExpiredJwt decode now_ms None
   \<and> isExpiredJwt decode now_ms (Some [])
   \<and> (length (split_on CHR ''.'' t1) \<noteq> 3 \<longrightarrow> isExpiredJwt decode now_ms (Some t1))
   \<and> (decode (split_on CHR ''.'' t2 ! 1) = None \<longrightarrow> isExpiredJwt decode now_ms (Some t2))
   \<and> (length (split_on CHR ''.'' t3) = 3 \<and> decode (split_on CHR ''.'' t3 ! 1) = Some payload
        \<and> payload_exp payload = Some (JNum e)
       \<longrightarrow> isExpiredJwt decode now_ms (Some t3) = (e \<le> of_int (now_ms div 1000)))
   \<and> (CHR ''.'' \<notin> set h \<union> set s \<union> set h' \<union> set s' \<union> set p
       \<longrightarrow> isExpiredJwt decode now_ms (Some (h @ ''.'' @ p @ ''.'' @ s))
           = isExpiredJwt decode now_ms (Some (h' @ ''.'' @ p @ ''.'' @ s')))"
proof -
  have sig: "isExpiredJwt decode now_ms (Some (a @ ''.'' @ p @ ''.'' @ b))
      = (case decode p of None \<Rightarrow> True
         | Some payload \<Rightarrow> (case payload_exp payload of
                      Some (JNum e) \<Rightarrow> e \<le> of_int (now_ms div 1000)
                    | _ \<Rightarrow> False))"
    if "CHR ''.'' \<notin> set a" "CHR ''.'' \<notin> set b" "CHR ''.'' \<notin> set p" for a b
    using that split_on_three[of "CHR ''.''" a p b]
    by (simp add: isExpiredJwt_def)
  have c1: "isExpiredJwt decode now_ms None" and c2: "isExpiredJwt decode now_ms (Some [])"
    by (simp_all add: isExpiredJwt_def)
  have c3: "length (split_on CHR ''.'' t1) \<noteq> 3 \<longrightarrow> isExpiredJwt decode now_ms (Some t1)"
    by (simp add: isExpiredJwt_def)
  have c4: "decode (split_on CHR ''.'' t2 ! 1) = None \<longrightarrow> isExpiredJwt decode now_ms (Some t2)"
    by (simp add: isExpiredJwt_def Let_def)
  have c5: "length (split_on CHR ''.'' t3) = 3 \<and> decode (split_on CHR ''.'' t3 ! 1) = Some payload
        \<and> payload_exp payload = Some (JNum e)
       \<longrightarrow> isExpiredJwt decode now_ms (Some t3) = (e \<le> of_int (now_ms div 1000))"
    by (auto simp: isExpiredJwt_def Let_def)
  have c6: "CHR ''.'' \<notin> set h \<union> set s \<union> set h' \<union> set s' \<union> set p
       \<longrightarrow> isExpiredJwt decode now_ms (Some (h @ ''.'' @ p @ ''.'' @ s))
           = isExpiredJwt decode now_ms (Some (h' @ ''.'' @ p @ ''.'' @ s'))"
    using sig[of h s] sig[of h' s'] by simp
  from c1 c2 c3 c4 c5 c6 show ?thesis by blast
qed

text \<open>
  The cases of C6 at sample tokens, with the clock at 1700000000.999 seconds: a two-part
  token, a token whose payload is not base64 JSON, and a token whose \<^verbatim>\<open>exp\<close> equals the
  clock's whole second (expired, since there is no grace), under two different headers
  and signatures.
\<close>

theorem isExpiredJwt_cases_witness:
  "length (split_on CHR ''.'' ''abc.def'') \<noteq> 3
   \<and> isExpiredJwt sample_decode 1700000000999 (Some ''abc.def'')
   \<and> sample_decode (split_on CHR ''.'' ''h.@@.s'' ! 1) = None
   \<and> isExpiredJwt sample_decode 1700000000999 (Some ''h.@@.s'')
   \<and> length (split_on CHR ''.'' ''h.eyJleHAiOjE3MDAwMDAwMDB9.s'') = 3
   \<and> sample_decode (split_on CHR ''.'' ''h.eyJleHAiOjE3MDAwMDAwMDB9.s'' ! 1) = Some (JObj [(''exp'', JNum 1700000000)])
   \<and> payload_exp (JObj [(''exp'', JNum 1700000000)]) = Some (JNum 1700000000)
   \<and> isExpiredJwt sample_decode 1700000000999 (Some ''h.eyJleHAiOjE3MDAwMDAwMDB9.s'')
   \<and> CHR ''.'' \<notin> set ''h'' \<union> set ''s'' \<union> set ''x'' \<union> set [] \<union> set ''eyJleHAiOjE3MDAwMDAwMDB9''
   \<and> isExpiredJwt sample_decode 1700000000999 (Some (''h'' @ ''.'' @ ''eyJleHAiOjE3MDAwMDAwMDB9'' @ ''.'' @ ''s''))
       = isExpiredJwt sample_decode 1700000000999 (Some (''x'' @ ''.'' @ ''eyJleHAiOjE3MDAwMDAwMDB9'' @ ''.'' @ []))"
  using isExpiredJwt_cases[of sample_decode 1700000000999 "''abc.def''" "''h.@@.s''"
      "''h.eyJleHAiOjE3MDAwMDAwMDB9.s''" "JObj [(''exp'', JNum 1700000000)]" 1700000000
      "''h''" "''s''" "''x''" "[]" "''eyJleHAiOjE3MDAwMDAwMDB9''"]
  by (auto simp: sample_decode_def)

subsection \<open>Auth pages with a \<^verbatim>\<open>next\<close> parameter\<close>

text \<open>
  C4. On \<^verbatim>\<open>/login\<close> or \<^verbatim>\<open>/register\<close> with a \<^verbatim>\<open>next\<close> parameter the gate lets the page
  render whatever the access-token cookie is, valid or not, so the rule comes before the
  redirect of an authenticated visitor to the dashboard. The response deletes the
  refresh-token cookie and the access token the request carried, and once the browser has
  applied it neither cookie holds a token.
\<close>

theorem gate_auth_page_next:
  assumes "isAuthPage (pathname (nextUrl req))"
    and "searchParams_has ''next'' (searchParams (nextUrl req))"
  shows "action (middleware decode now_ms req) = Continue
    \<and> TOKENS_REFRESH \<in> set (deleted (middleware decode now_ms req))
    \<and> (truthy_token (cookies req TOKENS_ACCESS)
         \<longrightarrow> TOKENS_ACCESS \<in> set (deleted (middleware decode now_ms req)))
    \<and> cookies_after req (middleware decode now_ms req) TOKENS_REFRESH = None
    \<and> \<not> truthy_token (cookies_after req (middleware decode now_ms req) TOKENS_ACCESS)"
proof -
  have np: "\<not> isProtected (pathname (nextUrl req))"
    using assms(1) isProtected_not_isAuthPage by blast
  have m: "middleware decode now_ms req =
      \<lparr> action = Continue,
        deleted = (if truthy_token (cookies req TOKENS_ACCESS) then [TOKENS_ACCESS] else []) @ [TOKENS_REFRESH] \<rparr>"
    using assms np by (simp add: middleware_def Let_def)
  show ?thesis
    unfolding m
    by (cases "cookies req TOKENS_ACCESS")
       (auto simp: cookies_after_def truthy_token_def TOKENS_ACCESS_def TOKENS_REFRESH_def)
qed

text \<open>
  C4 at \<^verbatim>\<open>/login?next=%2Fdashboard\<close> with an access-token cookie that the advisory check
  does not flag: the page renders, both cookies are deleted and none is left.
\<close>

theorem gate_auth_page_next_witness:
  "isAuthPage (pathname (nextUrl req_login_next_valid))
   \<and> searchParams_has ''next'' (searchParams (nextUrl req_login_next_valid))
   \<and> truthy_token (cookies req_login_next_valid TOKENS_ACCESS)
   \<and> \<not> isExpiredJwt sample_decode 1700000000999 (cookies req_login_next_valid TOKENS_ACCESS)
   \<and> action (middleware sample_decode 1700000000999 req_login_next_valid) = Continue
   \<and> TOKENS_REFRESH \<in> set (deleted (middleware sample_decode 1700000000999 req_login_next_valid))
   \<and> TOKENS_ACCESS \<in> set (deleted (middleware sample_decode 1700000000999 req_login_next_valid))
   \<and> cookies_after req_login_next_valid (middleware sample_decode 1700000000999 req_login_next_valid) TOKENS_REFRESH = None
   \<and> \<not> truthy_token (cookies_after req_login_next_valid
                         (middleware sample_decode 1700000000999 req_login_next_valid) TOKENS_ACCESS)"
proof -
  have a: "isAuthPage (pathname (nextUrl req_login_next_valid))"
    by (simp add: req_login_next_valid_def isAuthPage_def PAGE_LINKS_LOGIN_def)
  have b: "searchParams_has ''next'' (searchParams (nextUrl req_login_next_valid))"
    by (simp add: req_login_next_valid_def searchParams_has_def)
  have c: "\<not> isExpiredJwt sample_decode 1700000000999 (cookies req_login_next_valid TOKENS_ACCESS)"
    by (simp add: req_login_next_valid_def isExpiredJwt_def sample_decode_def TOKENS_ACCESS_def)
  have d: "truthy_token (cookies req_login_next_valid TOKENS_ACCESS)"
    by (simp add: req_login_next_valid_def truthy_token_def TOKENS_ACCESS_def)
  show ?thesis
    using gate_auth_page_next[OF a b, of sample_decode 1700000000999] a b c d
    by simp
qed

subsection \<open>Protected paths without a valid token\<close>

text \<open>
  C5. A request to a path that starts with \<^verbatim>\<open>/dashboard\<close> or \<^verbatim>\<open>/profile\<close> whose
  access-token cookie is absent or flagged by the advisory check is redirected to
  \<^verbatim>\<open>/login\<close>, with the parameter \<^verbatim>\<open>next\<close> set to the original path followed by the
  original query string. The response deletes the refresh-token cookie and the access
  token the request carried, and once the browser has applied it neither cookie holds a
  token.
\<close>

theorem gate_protected_unauthed:
  assumes "isProtected (pathname (nextUrl req))"
    and "cookies req TOKENS_ACCESS = None \<or> isExpiredJwt decode now_ms (cookies req TOKENS_ACCESS)"
  shows "action (middleware decode now_ms req)
        = Redirect \<lparr> pathname = ''/login'',
                     searchParams = searchParams_set ''next'' (pathname (nextUrl req) @ search req)
                                      (searchParams (nextUrl req)) \<rparr>
    \<and> map_of (searchParams_set ''next'' (pathname (nextUrl req) @ search req) (searchParams (nextUrl req))) ''next''
        = Some (pathname (nextUrl req) @ search req)
    \<and> TOKENS_REFRESH \<in> set (deleted (middleware decode now_ms req))
    \<and> (truthy_token (cookies req TOKENS_ACCESS)
         \<longrightarrow> TOKENS_ACCESS \<in> set (deleted (middleware decode now_ms req)))
    \<and> cookies_after req (middleware decode now_ms req) TOKENS_REFRESH = None
    \<and> \<not> truthy_token (cookies_after req (middleware decode now_ms req) TOKENS_ACCESS)"
proof -
  have e: "isExpiredJwt decode now_ms (cookies req TOKENS_ACCESS)"
    using assms(2) isExpiredJwt_None by auto
  have m: "middleware decode now_ms req =
      \<lparr> action = Redirect \<lparr> pathname = PAGE_LINKS_LOGIN,
                  searchParams = searchParams_set ''next'' (pathname (nextUrl req) @ search req)
                                      (searchParams (nextUrl req)) \<rparr>,
        deleted = (if truthy_token (cookies req TOKENS_ACCESS) then [TOKENS_ACCESS] else []) @ [TOKENS_REFRESH] \<rparr>"
    using assms(1) e by (simp add: middleware_def Let_def)
  show ?thesis
    unfolding m
    by (cases "cookies req TOKENS_ACCESS")
       (auto simp: cookies_after_def truthy_token_def TOKENS_ACCESS_def TOKENS_REFRESH_def
          PAGE_LINKS_LOGIN_def map_of_searchParams_set)
qed

text \<open>
  C5 at \<^verbatim>\<open>/dashboard\<close> with no cookie (redirect to \<^verbatim>\<open>/login?next=/dashboard\<close>) and at
  \<^verbatim>\<open>/dashboard/settings?tab=2\<close> with an expired access token, which the response deletes
  together with the refresh token.
\<close>

theorem gate_protected_unauthed_witness:
  "isProtected (pathname (nextUrl req_dashboard_none))
   \<and> cookies req_dashboard_none TOKENS_ACCESS = None
   \<and> action (middleware sample_decode 1700000000999 req_dashboard_none)
       = Redirect \<lparr> pathname = ''/login'', searchParams = [(''next'', ''/dashboard'')] \<rparr>
   \<and> TOKENS_REFRESH \<in> set (deleted (middleware sample_decode 1700000000999 req_dashboard_none))
   \<and> cookies_after req_dashboard_none (middleware sample_decode 1700000000999 req_dashboard_none) TOKENS_REFRESH = None
   \<and> \<not> truthy_token (cookies_after req_dashboard_none
                         (middleware sample_decode 1700000000999 req_dashboard_none) TOKENS_ACCESS)
   \<and> isProtected (pathname (nextUrl req_dashboard_stale))
   \<and> truthy_token (cookies req_dashboard_stale TOKENS_ACCESS)
   \<and> isExpiredJwt sample_decode 1700000000999 (cookies req_dashboard_stale TOKENS_ACCESS)
   \<and> action (middleware sample_decode 1700000000999 req_dashboard_stale)
       = Redirect \<lparr> pathname = ''/login'',
                    searchParams = [(''tab'', ''2''), (''next'', ''/dashboard/settings?tab=2'')] \<rparr>
   \<and> TOKENS_REFRESH \<in> set (deleted (middleware sample_decode 1700000000999 req_dashboard_stale))
   \<and> TOKENS_ACCESS \<in> set (deleted (middleware sample_decode 1700000000999 req_dashboard_stale))
   \<and> cookies_after req_dashboard_stale (middleware sample_decode 1700000000999 req_dashboard_stale) TOKENS_REFRESH = None
   \<and> \<not> truthy_token (cookies_after req_dashboard_stale
                         (middleware sample_decode 1700000000999 req_dashboard_stale) TOKENS_ACCESS)"
proof -
  have a1: "isProtected (pathname (nextUrl req_dashboard_none))"
    by (simp add: req_dashboard_none_def isProtected_def PAGE_LINKS_DASHBOARD_def)
  have b1: "cookies req_dashboard_none TOKENS_ACCESS = None"
    by (simp add: req_dashboard_none_def)
  have a2: "isProtected (pathname (nextUrl req_dashboard_stale))"
    by (simp add: req_dashboard_stale_def isProtected_def PAGE_LINKS_DASHBOARD_def)
  have b2: "isExpiredJwt sample_decode 1700000000999 (cookies req_dashboard_stale TOKENS_ACCESS)"
    by (simp add: req_dashboard_stale_def isExpiredJwt_def sample_decode_def TOKENS_ACCESS_def)
  have t2: "truthy_token (cookies req_dashboard_stale TOKENS_ACCESS)"
    by (simp add: req_dashboard_stale_def truthy_token_def TOKENS_ACCESS_def)
  have s1: "pathname (nextUrl req_dashboard_none) = ''/dashboard''" "search req_dashboard_none = []"
    "searchParams (nextUrl req_dashboard_none) = []"
    by (simp_all add: req_dashboard_none_def)
  have s2: "pathname (nextUrl req_dashboard_stale) = ''/dashboard/settings''"
    "search req_dashboard_stale = ''?tab=2''"
    "searchParams (nextUrl req_dashboard_stale) = [(''tab'', ''2'')]"
    by (simp_all add: req_dashboard_stale_def)
  show ?thesis
    using gate_protected_unauthed[OF a1 disjI1[OF b1], of sample_decode 1700000000999]
      gate_protected_unauthed[OF a2 disjI2[OF b2]] a1 b1 a2 b2 t2
    by (simp add: s1 s2)
qed

subsection \<open>Tokens without an expiry claim\<close>

text \<open>
  C9. A token of three parts whose payload decodes to JSON that has no numeric \<^verbatim>\<open>exp\<close> is
  not expired for the advisory check, at any clock; a request to a protected path that
  carries it as its access-token cookie is let through, with no cookie deleted.
\<close>

theorem no_exp_claim_is_authenticated:
  assumes "length (split_on CHR ''.'' t) = 3"
    and "decode (split_on CHR ''.'' t ! 1) = Some payload"
    and "\<forall>e. payload_exp payload \<noteq> Some (JNum e)"
  shows "\<not> isExpiredJwt decode now_ms (Some t)
    \<and> (isProtected (pathname (nextUrl req)) \<and> cookies req TOKENS_ACCESS = Some t
        \<longrightarrow> middleware decode now_ms req = \<lparr> action = Continue, deleted = [] \<rparr>)"
proof -
  have ne: "t \<noteq> []" using assms(1) by auto
  have x: "\<not> isExpiredJwt decode now_ms (Some t)"
    using assms ne by (auto simp: isExpiredJwt_def Let_def split: option.splits json.splits)
  have "middleware decode now_ms req = \<lparr> action = Continue, deleted = [] \<rparr>"
    if "isProtected (pathname (nextUrl req))" "cookies req TOKENS_ACCESS = Some t"
    using that x ne isProtected_not_isAuthPage[OF that(1)]
    by (simp add: middleware_def Let_def truthy_token_def)
  with x show ?thesis by blast
qed

text \<open>
  C9 at \<^verbatim>\<open>/profile\<close> with a token whose payload is \<^verbatim>\<open>{"sub":"u1"}\<close>, with the clock far
  in the future.
\<close>

theorem no_exp_claim_is_authenticated_witness:
  "length (split_on CHR ''.'' ''h.eyJzdWIiOiJ1MSJ9.s'') = 3
   \<and> sample_decode (split_on CHR ''.'' ''h.eyJzdWIiOiJ1MSJ9.s'' ! 1) = Some (JObj [(''sub'', JStr ''u1'')])
   \<and> payload_exp (JObj [(''sub'', JStr ''u1'')]) = None
   \<and> \<not> isExpiredJwt sample_decode 99999999999999999 (Some ''h.eyJzdWIiOiJ1MSJ9.s'')
   \<and> isProtected (pathname (nextUrl req_profile_no_exp))
   \<and> cookies req_profile_no_exp TOKENS_ACCESS = Some ''h.eyJzdWIiOiJ1MSJ9.s''
   \<and> middleware sample_decode 99999999999999999 req_profile_no_exp = \<lparr> action = Continue, deleted = [] \<rparr>"
proof -
  have a: "length (split_on CHR ''.'' ''h.eyJzdWIiOiJ1MSJ9.s'') = 3" by simp
  have b: "sample_decode (split_on CHR ''.'' ''h.eyJzdWIiOiJ1MSJ9.s'' ! 1) = Some (JObj [(''sub'', JStr ''u1'')])"
    by (simp add: sample_decode_def)
  have c: "\<forall>e. payload_exp (JObj [(''sub'', JStr ''u1'')]) \<noteq> Some (JNum e)" by simp
  have d: "isProtected (pathname (nextUrl req_profile_no_exp))"
    by (simp add: req_profile_no_exp_def isProtected_def PAGE_LINKS_PROFILE_def PAGE_LINKS_DASHBOARD_def)
  have e: "cookies req_profile_no_exp TOKENS_ACCESS = Some ''h.eyJzdWIiOiJ1MSJ9.s''"
    by (simp add: req_profile_no_exp_def TOKENS_ACCESS_def)
  show ?thesis
    using no_exp_claim_is_authenticated[where t = "''h.eyJzdWIiOiJ1MSJ9.s''" and decode = sample_decode
        and payload = "JObj [(''sub'', JStr ''u1'')]" and now_ms = 99999999999999999
        and req = req_profile_no_exp] a b c d e
    by simp
qed

subsection \<open>Path classes\<close>

text \<open>
  C10. A path is protected exactly when it starts with \<^verbatim>\<open>/dashboard\<close> or \<^verbatim>\<open>/profile\<close>,
  so everything nested under them is protected; it is an auth page exactly when it is
  \<^verbatim>\<open>/login\<close> or \<^verbatim>\<open>/register\<close>, so a path nested under those is neither an auth page nor
  protected. A request whose path is neither is let through: no redirect, no cookie
  deleted, the cookie store unchanged, whatever its cookies and query are.
\<close>

theorem path_classification:
  "isProtected (''/dashboard'' @ rest) \<and> isProtected (''/profile'' @ rest)
   \<and> (isProtected p \<longleftrightarrow> prefix ''/dashboard'' p \<or> prefix ''/profile'' p)
   \<and> (isAuthPage p \<longleftrightarrow> p = ''/login'' \<or> p = ''/register'')
   \<and> (rest \<noteq> [] \<longrightarrow> \<not> isAuthPage (''/login'' @ rest) \<and> \<not> isAuthPage (''/register'' @ rest)
                     \<and> \<not> isProtected (''/login'' @ rest) \<and> \<not> isProtected (''/register'' @ rest))
   \<and> (\<not> isProtected (pathname (nextUrl req)) \<and> \<not> isAuthPage (pathname (nextUrl req))
       \<longrightarrow> middleware decode now_ms req = \<lparr> action = Continue, deleted = [] \<rparr>
           \<and> cookies_after req (middleware decode now_ms req) = cookies req)"
  by (auto simp: isProtected_def isAuthPage_def middleware_def Let_def cookies_after_def
      PAGE_LINKS_DASHBOARD_def PAGE_LINKS_PROFILE_def PAGE_LINKS_LOGIN_def PAGE_LINKS_REGISTER_def)

text \<open>
  C10 at \<^verbatim>\<open>/dashboard/settings\<close>, \<^verbatim>\<open>/profile/edit\<close> and at \<^verbatim>\<open>/login/reset?next=%2Fdashboard\<close>
  sent with a valid access-token cookie, which passes through untouched.
\<close>

theorem path_classification_witness:
  "isProtected (''/dashboard'' @ ''/settings'') \<and> isProtected (''/profile'' @ ''/edit'')
   \<and> isAuthPage ''/login'' \<and> isAuthPage ''/register''
   \<and> ''/reset'' \<noteq> []
   \<and> \<not> isAuthPage (''/login'' @ ''/reset'') \<and> \<not> isAuthPage (''/register'' @ ''/reset'')
   \<and> \<not> isProtected (''/login'' @ ''/reset'') \<and> \<not> isProtected (''/register'' @ ''/reset'')
   \<and> \<not> isProtected (pathname (nextUrl req_login_nested))
   \<and> \<not> isAuthPage (pathname (nextUrl req_login_nested))
   \<and> middleware sample_decode 1700000000999 req_login_nested = \<lparr> action = Continue, deleted = [] \<rparr>
   \<and> cookies_after req_login_nested (middleware sample_decode 1700000000999 req_login_nested)
       = cookies req_login_nested"
proof -
  have p: "pathname (nextUrl req_login_nested) = ''/login'' @ ''/reset''"
    by (simp add: req_login_nested_def)
  show ?thesis
    using path_classification[of "''/settings''" "''/login''" req_login_nested sample_decode 1700000000999]
      path_classification[of "''/edit''" "''/register''" req_login_nested sample_decode 1700000000999]
      path_classification[of "''/reset''" "''/login''" req_login_nested sample_decode 1700000000999]
    unfolding p by simp
qed

section \<open>Properties of the client session store\<close>

lemma clearToken_Some:
  "clearToken (Some b) =
     Some \<lparr> localStorage = (localStorage b)(TOKENS_ACCESS := None, TOKENS_REFRESH := None),
            document_cookie = map_option (\<lambda>jar. jar((TOKENS_ACCESS, ''/'') := None,
                                                   (TOKENS_REFRESH, ''/'') := None))
                                (document_cookie b) \<rparr>"
  by (cases "document_cookie b") (simp_all add: clearToken_def Let_def document_cookie_assign_def)

text \<open>
  C8. From every state of the client, after \<^verbatim>\<open>clearToken\<close> neither \<^verbatim>\<open>localStorage\<close> nor
  the cookie store holds the access token or the refresh token, and \<^verbatim>\<open>getToken\<close> gives
  \<^verbatim>\<open>null\<close>. The operation has no failing branch: on a browser with nothing stored, and
  where there is no window, it returns the state it was given. Clearing twice gives the
  same state as clearing once.
\<close>

theorem clearToken_clears:
  "getItem (clearToken s) TOKENS_ACCESS = None
   \<and> getItem (clearToken s) TOKENS_REFRESH = None
   \<and> cookie_of (clearToken s) TOKENS_ACCESS = None
   \<and> cookie_of (clearToken s) TOKENS_REFRESH = None
   \<and> getToken (clearToken s) = None
   \<and> clearToken (clearToken s) = clearToken s
   \<and> clearToken empty_browser = empty_browser
   \<and> clearToken None = None"
proof -
  have n: "clearToken None = None"
    by (simp add: clearToken_def)
  have e: "clearToken empty_browser = empty_browser"
    by (simp add: empty_browser_def clearToken_Some)
  show ?thesis
  proof (cases s)
    case None
    then show ?thesis
      by (simp add: n e getItem_def cookie_of_def getToken_def)
  next
    case (Some b)
    show ?thesis
      unfolding Some
      by (cases "document_cookie b")
         (simp_all add: n e clearToken_Some getItem_def cookie_of_def getToken_def)
  qed
qed

text \<open>
  The lifetime \<^verbatim>\<open>login\<close> reads from a token. For a payload that decodes and has a
  numeric \<^verbatim>\<open>exp\<close> it is \<^verbatim>\<open>exp\<close> minus the clock in whole seconds, or zero if that is
  negative, unless \<^verbatim>\<open>exp\<close> is zero or parses to \<^verbatim>\<open>Infinity\<close>; there is none when the
  token has no second part, when the payload does not decode, and when it has no
  \<^verbatim>\<open>exp\<close>.
\<close>

lemma maxAgeFromJwt_numeric:
  assumes "2 \<le> length (split_on CHR ''.'' tok)"
    and "atob_parse (split_on CHR ''.'' tok ! 1) = Some payload"
    and "payload_exp payload = Some (JNum n)"
    and "\<bar>n\<bar> < DOUBLE_OVERFLOW"
  shows "maxAgeFromJwt atob_parse coerce now_ms tok
         = (if n = 0 then None else Some (max 0 (n - of_int (now_ms div 1000))))"
  using assms by (auto simp: maxAgeFromJwt_def Let_def json_number_def)

lemma maxAgeFromJwt_overflow:
  assumes "2 \<le> length (split_on CHR ''.'' tok)"
    and "atob_parse (split_on CHR ''.'' tok ! 1) = Some payload"
    and "payload_exp payload = Some (JNum n)"
    and "DOUBLE_OVERFLOW \<le> n"
  shows "maxAgeFromJwt atob_parse coerce now_ms tok = None"
proof -
  have "0 < DOUBLE_OVERFLOW"
    by (simp add: DOUBLE_OVERFLOW_def)
  then show ?thesis
    using assms by (auto simp: maxAgeFromJwt_def Let_def json_number_def)
qed

lemma maxAgeFromJwt_unreadable:
  assumes "length (split_on CHR ''.'' tok) < 2
           \<or> atob_parse (split_on CHR ''.'' tok ! 1) = None
           \<or> (\<exists>payload. atob_parse (split_on CHR ''.'' tok ! 1) = Some payload \<and> payload_exp payload = None)"
  shows "maxAgeFromJwt atob_parse coerce now_ms tok = None"
  using assms by (auto simp: maxAgeFromJwt_def Let_def)

lemma login_success_state:
  assumes "env_success e" and "env_data e = Some d"
  shows "fst (login atob_parse coerce now_ms (Body (Some e)) (Some b)) =
     Some \<lparr> localStorage = (localStorage b)(TOKENS_ACCESS \<mapsto> ls_accessToken d, TOKENS_REFRESH \<mapsto> ls_refreshToken d),
            document_cookie =
              map_option
                (\<lambda>jar. document_cookie_assign TOKENS_REFRESH
                          \<lparr> cookie_value = ls_refreshToken d, cookie_path = ''/'',
                            cookie_max_age = 2592000, cookie_same_site = ''Lax'' \<rparr>
                         (document_cookie_assign TOKENS_ACCESS
                            \<lparr> cookie_value = ls_accessToken d, cookie_path = ''/'',
                              cookie_max_age = maxAge atob_parse coerce now_ms (ls_accessToken d),
                              cookie_same_site = ''Lax'' \<rparr>
                            jar))
                (document_cookie b) \<rparr>"
proof -
  have h: "(60 * 60 * 24 * 30 :: real) = 2592000"
    by simp
  show ?thesis
    using assms
    by (cases b; cases "document_cookie b")
       (simp_all add: login_def Let_def setToken_def setRefreshToken_def h)
qed

lemma login_getToken:
  assumes "env_success e" and "env_data e = Some d"
  shows "getToken (fst (login atob_parse coerce now_ms (Body (Some e)) (Some b))) = Some (ls_accessToken d)"
  by (simp add: login_success_state[OF assms] getToken_def TOKENS_ACCESS_def TOKENS_REFRESH_def)

lemma login_cookie_of:
  assumes "env_success e" and "env_data e = Some d" and "document_cookie b = Some jar"
  shows "cookie_of (fst (login atob_parse coerce now_ms (Body (Some e)) (Some b))) TOKENS_REFRESH
         = Some \<lparr> cookie_value = ls_refreshToken d, cookie_path = ''/'',
                  cookie_max_age = 2592000, cookie_same_site = ''Lax'' \<rparr>"
    and "cookie_of (fst (login atob_parse coerce now_ms (Body (Some e)) (Some b))) TOKENS_ACCESS
         = (if maxAge atob_parse coerce now_ms (ls_accessToken d) \<le> 0 then None
            else Some \<lparr> cookie_value = ls_accessToken d, cookie_path = ''/'',
                        cookie_max_age = maxAge atob_parse coerce now_ms (ls_accessToken d),
                        cookie_same_site = ''Lax'' \<rparr>)"
  using assms(3)
  by (simp_all add: login_success_state[OF assms(1,2)] cookie_of_def document_cookie_assign_def
      TOKENS_ACCESS_def TOKENS_REFRESH_def)

text \<open>
  The expiry the API puts into a token: the issue time plus the time to live, in whole
  seconds. With the clock past the first second of the epoch and a time to live that is
  not negative it is a positive number, so never zero.
\<close>

lemma signJwt_exp_positive:
  assumes "ms ttl = Some m" and "0 \<le> m" and "0 < now_ms div 1000" and "secret \<noteq> []"
    and "map_of payload ''exp'' = None" and "map_of payload ''iat'' = None"
    and "map_of payload ''nbf'' = None"
  shows "\<exists>token. signJwt ms now_ms payload secret ttl = Inr token
           \<and> map_of (jwt_claims token) ''exp''
               = Some (JNum (of_int (now_ms div 1000) + of_int \<lfloor>m / 1000\<rfloor>))
           \<and> (0::real) < of_int (now_ms div 1000) + of_int \<lfloor>m / 1000\<rfloor>"
proof -
  have s: "map_of (set_claim k v cs) k = Some v" for k v and cs :: claims
    by (induction cs) auto
  have f: "0 \<le> \<lfloor>m / 1000\<rfloor>"
    using assms(2) by simp
  have "(0::real) < of_int (now_ms div 1000) + of_int \<lfloor>m / 1000\<rfloor>"
    using assms(3) f by linarith
  then show ?thesis
    using assms by (simp add: signJwt_def Let_def number_or_absent_def s)
qed

text \<open>
  C7. After a successful \<^verbatim>\<open>login\<close> in a browser the refresh-token cookie has
  \<^verbatim>\<open>Max-Age=2592000\<close>, whatever the two tokens are. The \<^verbatim>\<open>Max-Age\<close> written for the
  access-token cookie is the token's own \<^verbatim>\<open>exp\<close> minus the clock of the write in whole
  seconds, or zero if that is negative, for a token whose payload decodes with a numeric
  \<^verbatim>\<open>exp\<close> as the API issues it (finite and not zero); it is 3600 when the \<^verbatim>\<open>exp\<close> cannot
  be read: a token without a second part, a payload that does not decode, a payload
  without \<^verbatim>\<open>exp\<close>. The access-token cookie is stored with that \<^verbatim>\<open>Max-Age\<close>; one of zero
  seconds expires at once.
\<close>

theorem login_cookie_lifetimes:
  assumes "env_success e" and "env_data e = Some d" and "document_cookie b = Some jar"
  shows "cookie_of (fst (login atob_parse coerce now_ms (Body (Some e)) (Some b))) TOKENS_REFRESH
         = Some \<lparr> cookie_value = ls_refreshToken d, cookie_path = ''/'',
                  cookie_max_age = 2592000, cookie_same_site = ''Lax'' \<rparr>
    \<and> cookie_of (fst (login atob_parse coerce now_ms (Body (Some e)) (Some b))) TOKENS_ACCESS
         = (if maxAge atob_parse coerce now_ms (ls_accessToken d) \<le> 0 then None
            else Some \<lparr> cookie_value = ls_accessToken d, cookie_path = ''/'',
                        cookie_max_age = maxAge atob_parse coerce now_ms (ls_accessToken d),
                        cookie_same_site = ''Lax'' \<rparr>)
    \<and> (2 \<le> length (split_on CHR ''.'' (ls_accessToken d))
         \<and> atob_parse (split_on CHR ''.'' (ls_accessToken d) ! 1) = Some payload
         \<and> payload_exp payload = Some (JNum n) \<and> n \<noteq> 0 \<and> \<bar>n\<bar> < DOUBLE_OVERFLOW
        \<longrightarrow> maxAge atob_parse coerce now_ms (ls_accessToken d) = max 0 (n - of_int (now_ms div 1000)))
    \<and> (length (split_on CHR ''.'' (ls_accessToken d)) < 2
         \<or> atob_parse (split_on CHR ''.'' (ls_accessToken d) ! 1) = None
         \<or> (\<exists>p. atob_parse (split_on CHR ''.'' (ls_accessToken d) ! 1) = Some p \<and> payload_exp p = None)
        \<longrightarrow> maxAge atob_parse coerce now_ms (ls_accessToken d) = 3600)"
proof -
  have r: "maxAge atob_parse coerce now_ms (ls_accessToken d) = max 0 (n - of_int (now_ms div 1000))"
    if "2 \<le> length (split_on CHR ''.'' (ls_accessToken d))"
      "atob_parse (split_on CHR ''.'' (ls_accessToken d) ! 1) = Some payload"
      "payload_exp payload = Some (JNum n)" "n \<noteq> 0" "\<bar>n\<bar> < DOUBLE_OVERFLOW"
    using maxAgeFromJwt_numeric[of "ls_accessToken d" atob_parse payload n coerce now_ms] that
    by (simp add: maxAge_def)
  have u: "maxAge atob_parse coerce now_ms (ls_accessToken d) = 3600"
    if "length (split_on CHR ''.'' (ls_accessToken d)) < 2
         \<or> atob_parse (split_on CHR ''.'' (ls_accessToken d) ! 1) = None
         \<or> (\<exists>p. atob_parse (split_on CHR ''.'' (ls_accessToken d) ! 1) = Some p \<and> payload_exp p = None)"
    using maxAgeFromJwt_unreadable[of "ls_accessToken d" atob_parse coerce now_ms] that
    by (simp add: maxAge_def)
  from login_cookie_of[OF assms, of atob_parse coerce now_ms] r u
  show ?thesis by blast
qed

text \<open>
  C7 in a browser with nothing stored, at 1700000000.999 seconds: a token whose payload is
  \<^verbatim>\<open>{"exp":1700000600}\<close> gets \<^verbatim>\<open>Max-Age=600\<close>, a token whose payload does not decode gets
  \<^verbatim>\<open>Max-Age=3600\<close>, and the refresh-token cookie gets \<^verbatim>\<open>Max-Age=2592000\<close> both times.
\<close>

theorem login_cookie_lifetimes_witness:
  "2 \<le> length (split_on CHR ''.'' ''h.eyJleHAiOjE3MDAwMDA2MDB9.s'')
   \<and> sample_decode (split_on CHR ''.'' ''h.eyJleHAiOjE3MDAwMDA2MDB9.s'' ! 1)
       = Some (JObj [(''exp'', JNum 1700000600)])
   \<and> payload_exp (JObj [(''exp'', JNum 1700000600)]) = Some (JNum 1700000600)
   \<and> (1700000600::real) \<noteq> 0 \<and> \<bar>1700000600\<bar> < DOUBLE_OVERFLOW
   \<and> maxAge sample_decode sample_coerce 1700000000999 ''h.eyJleHAiOjE3MDAwMDA2MDB9.s'' = 600
   \<and> cookie_of (fst (login sample_decode sample_coerce 1700000000999
                        (login_response ''h.eyJleHAiOjE3MDAwMDA2MDB9.s'') empty_browser)) TOKENS_ACCESS
       = Some \<lparr> cookie_value = ''h.eyJleHAiOjE3MDAwMDA2MDB9.s'', cookie_path = ''/'',
                cookie_max_age = 600, cookie_same_site = ''Lax'' \<rparr>
   \<and> cookie_of (fst (login sample_decode sample_coerce 1700000000999
                        (login_response ''h.eyJleHAiOjE3MDAwMDA2MDB9.s'') empty_browser)) TOKENS_REFRESH
       = Some \<lparr> cookie_value = ''r'', cookie_path = ''/'',
                cookie_max_age = 2592000, cookie_same_site = ''Lax'' \<rparr>
   \<and> sample_decode (split_on CHR ''.'' ''h.@@.s'' ! 1) = None
   \<and> maxAge sample_decode sample_coerce 1700000000999 ''h.@@.s'' = 3600
   \<and> cookie_of (fst (login sample_decode sample_coerce 1700000000999
                        (login_response ''h.@@.s'') empty_browser)) TOKENS_ACCESS
       = Some \<lparr> cookie_value = ''h.@@.s'', cookie_path = ''/'',
                cookie_max_age = 3600, cookie_same_site = ''Lax'' \<rparr>
   \<and> cookie_of (fst (login sample_decode sample_coerce 1700000000999
                        (login_response ''h.@@.s'') empty_browser)) TOKENS_REFRESH
       = Some \<lparr> cookie_value = ''r'', cookie_path = ''/'',
                cookie_max_age = 2592000, cookie_same_site = ''Lax'' \<rparr>"
proof -
  let ?good = "''h.eyJleHAiOjE3MDAwMDA2MDB9.s''"
  let ?bad = "''h.@@.s''"
  let ?e = "\<lambda>tok. \<lparr> env_success = True,
                    env_data = Some \<lparr> ls_accessToken = tok, ls_refreshToken = ''r'',
                                       ls_user = sample_user \<rparr> \<rparr>"
  let ?d = "\<lambda>tok. \<lparr> ls_accessToken = tok, ls_refreshToken = ''r'', ls_user = sample_user \<rparr>"
  let ?b = "\<lparr> localStorage = Map.empty, document_cookie = Some Map.empty \<rparr>"
  have l: "2 \<le> length (split_on CHR ''.'' ?good)" by simp
  have dg: "sample_decode (split_on CHR ''.'' ?good ! 1) = Some (JObj [(''exp'', JNum 1700000600)])"
    by (simp add: sample_decode_def)
  have db: "sample_decode (split_on CHR ''.'' ?bad ! 1) = None"
    by (simp add: sample_decode_def)
  have fin: "\<bar>1700000600::real\<bar> < DOUBLE_OVERFLOW"
    by (simp add: DOUBLE_OVERFLOW_def)
  have g: "login_response tok = Body (Some (?e tok))" "empty_browser = Some ?b" for tok
    by (simp_all add: login_response_def empty_browser_def)
  from login_cookie_lifetimes[of "?e ?good" "?d ?good" ?b Map.empty sample_decode sample_coerce
      1700000000999 "JObj [(''exp'', JNum 1700000600)]" 1700000600]
    login_cookie_lifetimes[of "?e ?bad" "?d ?bad" ?b Map.empty sample_decode sample_coerce
      1700000000999 "JObj []" 1]
  show ?thesis
    using l dg db fin unfolding g by simp
qed

section \<open>Properties of the API\<close>

lemma sample_find_alice: "findFirst_users sample_toLowerCase ''alice'' sample_db = Some sample_row"
  by (simp add: findFirst_users_def sample_db_def sample_row_def)

lemma sample_find_bob: "findFirst_users sample_toLowerCase ''bob'' sample_db = None"
  by (simp add: findFirst_users_def sample_db_def sample_row_def)

subsection \<open>Credential verification\<close>

text \<open>
  C2. On every path through \<^verbatim>\<open>authenticate\<close>, the path on which signing throws included,
  \<^verbatim>\<open>bcrypt.compare\<close> is called exactly once: with the stored hash of the row when the
  lookup finds one, with the fixed \<^verbatim>\<open>DUMMY_HASH\<close> when it finds none. When no row is found,
  and when a row is found but the comparison fails, the value returned is the same
  \<^verbatim>\<open>{ user: null }\<close>, with no token and nothing else in it.
\<close>

theorem authenticate_one_compare:
  "fst (authenticate compare ms toLowerCase cfg db now_ms identifier password)
     = [(password, case findFirst_users toLowerCase identifier db of None \<Rightarrow> DUMMY_HASH | Some r \<Rightarrow> db_password r)]
   \<and> length (fst (authenticate compare ms toLowerCase cfg db now_ms identifier password)) = 1
   \<and> (findFirst_users toLowerCase identifier db = None
        \<longrightarrow> snd (authenticate compare ms toLowerCase cfg db now_ms identifier password) = Inr no_user)
   \<and> (findFirst_users toLowerCase identifier db = Some r \<and> \<not> compare password (db_password r)
        \<longrightarrow> snd (authenticate compare ms toLowerCase cfg db now_ms identifier password) = Inr no_user)"
proof -
  have l: "fst (authenticate compare ms toLowerCase cfg db now_ms identifier password)
     = [(password, case findFirst_users toLowerCase identifier db of None \<Rightarrow> DUMMY_HASH | Some r \<Rightarrow> db_password r)]"
    by (simp add: authenticate_def Let_def split: option.splits sum.splits)
  have n: "findFirst_users toLowerCase identifier db = None
        \<longrightarrow> snd (authenticate compare ms toLowerCase cfg db now_ms identifier password) = Inr no_user"
    by (simp add: authenticate_def Let_def)
  have w: "findFirst_users toLowerCase identifier db = Some r \<and> \<not> compare password (db_password r)
        \<longrightarrow> snd (authenticate compare ms toLowerCase cfg db now_ms identifier password) = Inr no_user"
    by (simp add: authenticate_def Let_def)
  from l n w show ?thesis by simp
qed

text \<open>
  C2 on the sample table: an unknown identifier is compared against \<^verbatim>\<open>DUMMY_HASH\<close>, a
  known one with a wrong password against the stored hash; one call each, and the same
  result.
\<close>

theorem authenticate_one_compare_witness:
  "findFirst_users sample_toLowerCase ''bob'' sample_db = None
   \<and> authenticate sample_compare sample_ms sample_toLowerCase sample_cfg sample_db 1700000000999 ''bob'' ''secret1''
       = ([(''secret1'', DUMMY_HASH)], Inr no_user)
   \<and> findFirst_users sample_toLowerCase ''alice'' sample_db = Some sample_row
   \<and> \<not> sample_compare ''guess'' (db_password sample_row)
   \<and> authenticate sample_compare sample_ms sample_toLowerCase sample_cfg sample_db 1700000000999 ''alice'' ''guess''
       = ([(''guess'', ''bcrypt:secret1'')], Inr no_user)"
proof -
  have c: "\<not> sample_compare ''guess'' (db_password sample_row)"
    by (simp add: sample_compare_def sample_row_def)
  have p: "db_password sample_row = ''bcrypt:secret1''"
    by (simp add: sample_row_def)
  show ?thesis
    using authenticate_one_compare[of sample_compare sample_ms sample_toLowerCase sample_cfg sample_db 1700000000999
        "''bob''" "''secret1''" sample_row]
      authenticate_one_compare[of sample_compare sample_ms sample_toLowerCase sample_cfg sample_db 1700000000999
        "''alice''" "''guess''" sample_row]
      sample_find_alice sample_find_bob c
    by (simp add: prod_eq_iff p)
qed

subsection \<open>The login endpoint\<close>

text \<open>
  C3. A login request whose body failed the schema, whose identifier matches no row, or
  whose password does not match the row's hash gets status 401 with the body
  \<^verbatim>\<open>{ success: false, error: "Invalid credentials" }\<close>: one response for the three
  causes.
\<close>

theorem login_handler_uniform_401:
  assumes "validationError r \<noteq> None
    \<or> findFirst_users toLowerCase (body_identifier r) db = None
    \<or> (\<exists>row. findFirst_users toLowerCase (body_identifier r) db = Some row
              \<and> \<not> compare (body_password r) (db_password row))"
  shows "snd (login_handler compare ms toLowerCase cfg db now_ms r)
         = Inr \<lparr> reply_code = 401, reply_body = Failure ''Invalid credentials'' \<rparr>"
  using assms
  by (auto simp: login_handler_def authenticate_def Let_def no_user_def
      RESPONSE_TEXTS_USER_INVALID_CREDENTIALS_def)

text \<open>
  C3 on the sample table: a body with a one-character password that failed validation,
  an unknown identifier, and a wrong password.
\<close>

theorem login_handler_uniform_401_witness:
  "validationError \<lparr> validationError = Some ''body/password must NOT have fewer than 6 characters'',
                      body_identifier = ''alice'', body_password = ''s'' \<rparr> \<noteq> None
   \<and> snd (login_handler sample_compare sample_ms sample_toLowerCase sample_cfg sample_db 1700000000999
            \<lparr> validationError = Some ''body/password must NOT have fewer than 6 characters'',
              body_identifier = ''alice'', body_password = ''s'' \<rparr>)
      = Inr \<lparr> reply_code = 401, reply_body = Failure ''Invalid credentials'' \<rparr>
   \<and> findFirst_users sample_toLowerCase ''bob'' sample_db = None
   \<and> snd (login_handler sample_compare sample_ms sample_toLowerCase sample_cfg sample_db 1700000000999
            \<lparr> validationError = None, body_identifier = ''bob'', body_password = ''secret1'' \<rparr>)
      = Inr \<lparr> reply_code = 401, reply_body = Failure ''Invalid credentials'' \<rparr>
   \<and> findFirst_users sample_toLowerCase ''alice'' sample_db = Some sample_row
   \<and> \<not> sample_compare ''guess1'' (db_password sample_row)
   \<and> snd (login_handler sample_compare sample_ms sample_toLowerCase sample_cfg sample_db 1700000000999
            \<lparr> validationError = None, body_identifier = ''alice'', body_password = ''guess1'' \<rparr>)
      = Inr \<lparr> reply_code = 401, reply_body = Failure ''Invalid credentials'' \<rparr>"
proof -
  have c: "\<not> sample_compare ''guess1'' (db_password sample_row)"
    by (simp add: sample_compare_def sample_row_def)
  show ?thesis
    using login_handler_uniform_401[of
        "\<lparr> validationError = Some ''body/password must NOT have fewer than 6 characters'',
           body_identifier = ''alice'', body_password = ''s'' \<rparr>"
        sample_toLowerCase sample_db sample_compare sample_ms sample_cfg 1700000000999]
      login_handler_uniform_401[of
        "\<lparr> validationError = None, body_identifier = ''bob'', body_password = ''secret1'' \<rparr>"
        sample_toLowerCase sample_db sample_compare sample_ms sample_cfg 1700000000999]
      login_handler_uniform_401[of
        "\<lparr> validationError = None, body_identifier = ''alice'', body_password = ''guess1'' \<rparr>"
        sample_toLowerCase sample_db sample_compare sample_ms sample_cfg 1700000000999]
      sample_find_alice sample_find_bob c
    by simp
qed

subsection \<open>Issuing and verifying\<close>

lemma verifyJwt_own_signature:
  assumes "secret \<noteq> []"
    and "map_of cs ''nbf'' = None"
    and "map_of cs ''exp'' = Some (JNum e)"
    and "of_int (t_ms div 1000) < e"
  shows "verifyJwt t_ms \<lparr> jwt_alg = ''HS256'', jwt_claims = cs, jwt_signature = Hmac secret ''HS256'' cs \<rparr> secret
         = Inr cs"
  using assms by (simp add: verifyJwt_def Let_def)

text \<open>
  C1, as amended. When the lookup finds a row, the password matches, both secrets are
  non-empty and both time spans are understood, \<^verbatim>\<open>authenticate\<close> returns the user with an
  access token and a refresh token, and verifying the access token with the access
  secret, at any clock before the token's \<^verbatim>\<open>exp\<close>, succeeds and gives the claims
  \<^verbatim>\<open>sub\<close> (the row's id), \<^verbatim>\<open>username\<close>, \<^verbatim>\<open>iat\<close> and \<^verbatim>\<open>exp\<close>. The access token carries no
  claim that names its class, neither \<^verbatim>\<open>kind\<close> nor \<^verbatim>\<open>type\<close>; only the refresh token is
  marked, with \<^verbatim>\<open>type = "refresh"\<close>.
\<close>

theorem issue_verify_roundtrip:
  assumes "findFirst_users toLowerCase identifier db = Some r"
    and "compare password (db_password r)"
    and "JWT_ACCESS_SECRET cfg \<noteq> []" and "JWT_REFRESH_SECRET cfg \<noteq> []"
    and "ms (JWT_ACCESS_TTL cfg) = Some ma" and "ms (JWT_REFRESH_TTL cfg) = Some mr"
    and "verify_ms div 1000 < now_ms div 1000 + \<lfloor>ma / 1000\<rfloor>"
  shows "\<exists>accessToken refreshToken.
      snd (authenticate compare ms toLowerCase cfg db now_ms identifier password)
        = Inr \<lparr> res_user = Some \<lparr> pu_id = db_id r, pu_name = db_name r,
                                  pu_username = db_username r, pu_email = db_email r \<rparr>,
                res_accessToken = Some accessToken, res_refreshToken = Some refreshToken \<rparr>
      \<and> verifyJwt verify_ms accessToken (JWT_ACCESS_SECRET cfg) = Inr (jwt_claims accessToken)
      \<and> jwt_claims accessToken
          = [(''sub'', JStr (db_id r)), (''username'', JStr (db_username r)),
             (''iat'', JNum (of_int (now_ms div 1000))),
             (''exp'', JNum (of_int (now_ms div 1000 + \<lfloor>ma / 1000\<rfloor>)))]
      \<and> map_of (jwt_claims accessToken) ''sub'' = Some (JStr (db_id r))
      \<and> map_of (jwt_claims accessToken) ''kind'' = None
      \<and> map_of (jwt_claims accessToken) ''type'' = None
      \<and> map_of (jwt_claims refreshToken) ''type'' = Some (JStr ''refresh'')"
proof -
  let ?acs = "[(''sub'', JStr (db_id r)), (''username'', JStr (db_username r)),
             (''iat'', JNum (of_int (now_ms div 1000))),
             (''exp'', JNum (of_int (now_ms div 1000 + \<lfloor>ma / 1000\<rfloor>)))]"
  let ?rcs = "[(''sub'', JStr (db_id r)), (''type'', JStr ''refresh''),
             (''iat'', JNum (of_int (now_ms div 1000))),
             (''exp'', JNum (of_int (now_ms div 1000 + \<lfloor>mr / 1000\<rfloor>)))]"
  let ?at = "\<lparr> jwt_alg = ''HS256'', jwt_claims = ?acs,
               jwt_signature = Hmac (JWT_ACCESS_SECRET cfg) ''HS256'' ?acs \<rparr>"
  let ?rt = "\<lparr> jwt_alg = ''HS256'', jwt_claims = ?rcs,
               jwt_signature = Hmac (JWT_REFRESH_SECRET cfg) ''HS256'' ?rcs \<rparr>"
  have sa: "signJwt ms now_ms [(''sub'', JStr (db_id r)), (''username'', JStr (db_username r))]
              (JWT_ACCESS_SECRET cfg) (JWT_ACCESS_TTL cfg) = Inr ?at"
    using assms(3,5) by (simp add: signJwt_def Let_def number_or_absent_def)
  have sr: "signJwt ms now_ms [(''sub'', JStr (db_id r)), (''type'', JStr ''refresh'')]
              (JWT_REFRESH_SECRET cfg) (JWT_REFRESH_TTL cfg) = Inr ?rt"
    using assms(4,6) by (simp add: signJwt_def Let_def number_or_absent_def)
  have au: "snd (authenticate compare ms toLowerCase cfg db now_ms identifier password)
        = Inr \<lparr> res_user = Some \<lparr> pu_id = db_id r, pu_name = db_name r,
                                  pu_username = db_username r, pu_email = db_email r \<rparr>,
                res_accessToken = Some ?at, res_refreshToken = Some ?rt \<rparr>"
    using assms(1,2) by (simp add: authenticate_def Let_def sa sr)
  have lt: "real_of_int (verify_ms div 1000) < real_of_int (now_ms div 1000 + \<lfloor>ma / 1000\<rfloor>)"
    using assms(7) by linarith
  have ve: "verifyJwt verify_ms ?at (JWT_ACCESS_SECRET cfg) = Inr ?acs"
    by (rule verifyJwt_own_signature[OF assms(3) _ _ lt]) simp_all
  show ?thesis
    using au ve by auto
qed

text \<open>
  The amended C1 on the sample table, with the default time spans: issued at
  1700000000.999 seconds and verified just under ten minutes later.
\<close>

theorem issue_verify_roundtrip_witness:
  "findFirst_users sample_toLowerCase ''alice'' sample_db = Some sample_row
   \<and> sample_compare ''secret1'' (db_password sample_row)
   \<and> JWT_ACCESS_SECRET sample_cfg \<noteq> [] \<and> JWT_REFRESH_SECRET sample_cfg \<noteq> []
   \<and> sample_ms (JWT_ACCESS_TTL sample_cfg) = Some 600000
   \<and> sample_ms (JWT_REFRESH_TTL sample_cfg) = Some 604800000
   \<and> (1700000599999::int) div 1000 < 1700000000999 div 1000 + \<lfloor>600000 / (1000::real)\<rfloor>
   \<and> (\<exists>accessToken refreshToken.
        snd (authenticate sample_compare sample_ms sample_toLowerCase sample_cfg sample_db 1700000000999 ''alice'' ''secret1'')
          = Inr \<lparr> res_user = Some \<lparr> pu_id = ''u1'', pu_name = ''Alice'',
                                    pu_username = ''alice'', pu_email = ''alice@example.com'' \<rparr>,
                  res_accessToken = Some accessToken, res_refreshToken = Some refreshToken \<rparr>
        \<and> verifyJwt 1700000599999 accessToken (JWT_ACCESS_SECRET sample_cfg) = Inr (jwt_claims accessToken)
        \<and> map_of (jwt_claims accessToken) ''sub'' = Some (JStr ''u1'')
        \<and> map_of (jwt_claims accessToken) ''type'' = None
        \<and> map_of (jwt_claims refreshToken) ''type'' = Some (JStr ''refresh''))"
proof -
  have c: "sample_compare ''secret1'' (db_password sample_row)"
    by (simp add: sample_compare_def sample_row_def)
  have s: "JWT_ACCESS_SECRET sample_cfg \<noteq> []" "JWT_REFRESH_SECRET sample_cfg \<noteq> []"
    by (simp_all add: sample_cfg_def)
  have m: "sample_ms (JWT_ACCESS_TTL sample_cfg) = Some 600000"
    "sample_ms (JWT_REFRESH_TTL sample_cfg) = Some 604800000"
    by (simp_all add: sample_cfg_def sample_ms_def)
  have t: "(1700000599999::int) div 1000 < 1700000000999 div 1000 + \<lfloor>600000 / (1000::real)\<rfloor>"
    by simp
  have d: "db_id sample_row = ''u1''" "db_name sample_row = ''Alice''"
    "db_username sample_row = ''alice''" "db_email sample_row = ''alice@example.com''"
    by (simp_all add: sample_row_def)
  from issue_verify_roundtrip[of sample_toLowerCase "''alice''" sample_db sample_row sample_compare "''secret1''"
      sample_cfg sample_ms 600000 604800000 1700000599999 1700000000999,
      OF sample_find_alice c s m t]
  show ?thesis
    using sample_find_alice c s m t unfolding d by blast
qed

text \<open>
  C1 as stated fails for the sample user: the access token issued for \<^verbatim>\<open>u1\<close> verifies
  with the access secret and its \<^verbatim>\<open>sub\<close> is \<^verbatim>\<open>u1\<close>, but the claims hold no \<^verbatim>\<open>kind\<close> and no
  \<^verbatim>\<open>type\<close>, and no claim at all has the value \<^verbatim>\<open>"access"\<close>.
\<close>

theorem issue_verify_roundtrip_counterexample:
  "snd (authenticate sample_compare sample_ms sample_toLowerCase sample_cfg sample_db 1700000000999 ''alice'' ''secret1'')
     = Inr \<lparr> res_user = Some \<lparr> pu_id = ''u1'', pu_name = ''Alice'',
                               pu_username = ''alice'', pu_email = ''alice@example.com'' \<rparr>,
             res_accessToken = Some sample_access_token,
             res_refreshToken = Some sample_refresh_token \<rparr>
   \<and> verifyJwt 1700000000999 sample_access_token (JWT_ACCESS_SECRET sample_cfg) = Inr sample_access_claims
   \<and> map_of sample_access_claims ''sub'' = Some (JStr ''u1'')
   \<and> map_of sample_access_claims ''kind'' \<noteq> Some (JStr ''access'')
   \<and> map_of sample_access_claims ''type'' \<noteq> Some (JStr ''access'')
   \<and> JStr ''access'' \<notin> snd ` set sample_access_claims"
proof -
  have a: "snd (authenticate sample_compare sample_ms sample_toLowerCase sample_cfg sample_db 1700000000999 ''alice'' ''secret1'')
     = Inr \<lparr> res_user = Some \<lparr> pu_id = ''u1'', pu_name = ''Alice'',
                               pu_username = ''alice'', pu_email = ''alice@example.com'' \<rparr>,
             res_accessToken = Some sample_access_token,
             res_refreshToken = Some sample_refresh_token \<rparr>"
    by (simp add: authenticate_def Let_def sample_find_alice signJwt_def number_or_absent_def
        sample_ms_def sample_cfg_def
        sample_compare_def sample_row_def sample_access_token_def sample_refresh_token_def
        sample_access_claims_def sample_refresh_claims_def)
  have v: "verifyJwt 1700000000999 sample_access_token (JWT_ACCESS_SECRET sample_cfg) = Inr sample_access_claims"
    by (simp add: verifyJwt_def Let_def sample_access_token_def sample_cfg_def sample_access_claims_def)
  have c: "map_of sample_access_claims ''sub'' = Some (JStr ''u1'')"
    "map_of sample_access_claims ''kind'' \<noteq> Some (JStr ''access'')"
    "map_of sample_access_claims ''type'' \<noteq> Some (JStr ''access'')"
    "JStr ''access'' \<notin> snd ` set sample_access_claims"
    by (simp_all add: sample_access_claims_def)
  from a v c show ?thesis by simp
qed


end
